theory Spec2Isabelle
  imports Main "HOL-Library.Multiset" "HOL-Library.Char_ord" "HOL-Library.List_Lexorder" "HOL-Library.Product_Lexorder"
begin

section \<open>Python strings\<close>

text \<open>
  A Python \<open>str\<close> is modelled as a \<open>string\<close> whose characters are the code points
  below 256. Code points above that range are outside the model.
\<close>

definition lower_char :: "char \<Rightarrow> char" where
  \<comment> \<open>\<open>str.lower\<close> on one code point: A-Z and the Latin-1 capitals move up by 32.\<close>
  "lower_char c =
     (let n = (of_char c :: nat)
      in if (65 \<le> n \<and> n \<le> 90) \<or> (192 \<le> n \<and> n \<le> 222 \<and> n \<noteq> 215)
         then char_of (n + 32) else c)"

definition lower :: "string \<Rightarrow> string" where
  "lower s = map lower_char s"

definition isspace :: "char \<Rightarrow> bool" where
  \<comment> \<open>\<open>str.isspace\<close>: TAB, LF, VT, FF, CR, FS, GS, RS, US, SPACE, NEL, NBSP.\<close>
  "isspace c =
     (let n = (of_char c :: nat)
      in (9 \<le> n \<and> n \<le> 13) \<or> (28 \<le> n \<and> n \<le> 32) \<or> n = 133 \<or> n = 160)"

definition strip :: "string \<Rightarrow> string" where
  \<comment> \<open>\<open>str.strip()\<close>: leading and trailing whitespace removed.\<close>
  "strip s = rev (dropWhile isspace (rev (dropWhile isspace s)))"

definition startswith :: "string \<Rightarrow> string \<Rightarrow> bool" where
  \<comment> \<open>\<open>s.startswith(p)\<close>\<close>
  "startswith s p = (take (length p) s = p)"

section \<open>Neo4j variant: the graph store\<close>

text \<open>
  The graph of \<open>clinic_v2_withoutgui.py\<close>. A node is the tuple or record of the properties
  that the module's Cypher statements give it; a relationship is the pair of the \<open>id\<close>
  properties of its end nodes (the module creates a uniqueness constraint on \<open>id\<close> for
  every label). The singleton \<open>Counter {name: 'global_ids'}\<close> node is present or absent;
  its fields hold integers, and the store's 64-bit bound is not modelled.
\<close>

type_synonym bytes = "char list"

record medical_file =
  mf_id :: int
  mf_filename :: string
  mf_file_type :: string
  mf_file_size :: int
  mf_file_data :: bytes
  mf_upload_date :: string
  mf_description :: "string option"

record graph =
  counter :: "(string \<rightharpoonup> int) option"
  departments :: "(int \<times> string) list"
  doctors :: "(int \<times> string \<times> string) list"
  has_doctor :: "(int \<times> int) list"
  patients :: "(int \<times> string \<times> string) list"
  treats :: "(int \<times> int) list"
  appointments :: "(int \<times> string) list"
  doctor_has_appointment :: "(int \<times> int) list"
  patient_has_appointment :: "(int \<times> int) list"
  observations :: "int list"
  medical_files :: "medical_file list"
  has_file :: "(int \<times> int) list"

subsection \<open>Sequence allocator\<close>

definition coalesce :: "int option \<Rightarrow> int \<Rightarrow> int" where
  "coalesce v d = (case v of None \<Rightarrow> d | Some x \<Rightarrow> x)"

definition next_id :: "string \<Rightarrow> graph \<Rightarrow> int \<times> graph" where
  \<comment> \<open>\<open>_next_id\<close>: one statement that matches the counter node, sets the field and
      returns the old value; without a matching node it yields no record, writes nothing,
      and the method returns 1.\<close>
  "next_id label g =
     (let field = lower label
      in case counter g of
           None \<Rightarrow> (1, g)
         | Some ctr \<Rightarrow>
             (let current = ctr field
              in (coalesce current 1,
                  g\<lparr>counter := Some (ctr(field \<mapsto> coalesce current 1 + 1))\<rparr>)))"

fun next_ids :: "string \<Rightarrow> nat \<Rightarrow> graph \<Rightarrow> int list \<times> graph" where
  \<comment> \<open>\<open>n\<close> successive calls of \<open>_next_id(label)\<close>, results in call order.\<close>
  "next_ids label 0 g = ([], g)"
| "next_ids label (Suc n) g =
     (let (i, g') = next_id label g;
          (js, g'') = next_ids label n g'
      in (i # js, g''))"

definition stored :: "graph \<Rightarrow> string \<Rightarrow> int option" where
  \<comment> \<open>The value the counter record holds for an entity-type label.\<close>
  "stored g label = (case counter g of None \<Rightarrow> None | Some ctr \<Rightarrow> ctr (lower label))"

subsection \<open>Query helpers\<close>

definition get_doctors_by_department :: "graph \<Rightarrow> int \<Rightarrow> (int \<times> string \<times> string) list" where
  \<comment> \<open>\<open>MATCH (:Department {id})-[:HAS_DOCTOR]->(doc:Doctor) RETURN ... ORDER BY fn, ln\<close>\<close>
  "get_doctors_by_department g department_id =
     sort_key (\<lambda>(i, fn, ln). (fn, ln))
       [(i, fn, ln).
          (dep, name) \<leftarrow> departments g, dep = department_id,
          (src, dst) \<leftarrow> has_doctor g, src = dep,
          (i, fn, ln) \<leftarrow> doctors g, i = dst]"

definition get_patient_by_name :: "graph \<Rightarrow> string \<Rightarrow> string \<Rightarrow> (int \<times> string \<times> string) option" where
  \<comment> \<open>\<open>.single()\<close> of the matching Patient nodes: the first record, or None.\<close>
  "get_patient_by_name g first_name last_name =
     (case filter (\<lambda>(i, fn, ln). fn = first_name \<and> ln = last_name) (patients g) of
        [] \<Rightarrow> None
      | rec # _ \<Rightarrow> Some rec)"

datatype graph_error = ConstraintError

definition create_patient ::
  "string \<Rightarrow> string \<Rightarrow> int option \<Rightarrow> graph \<Rightarrow> (graph_error + int) \<times> graph" where
  \<comment> \<open>The id is taken from the counter by a statement of its own, which stays in effect
      when the CREATE that follows is refused: the uniqueness constraint on \<open>Patient.id\<close>
      admits no second node with this id, and the driver raises.\<close>
  "create_patient first_name last_name doctor_id g =
     (let (pid, g1) = next_id ''Patient'' g
      in if pid \<in> fst ` set (patients g1) then (Inl ConstraintError, g1)
         else let g2 = g1\<lparr>patients := patients g1 @ [(pid, first_name, last_name)]\<rparr>
              in case doctor_id of
                   None \<Rightarrow> (Inr pid, g2)
                 | Some did \<Rightarrow>
                     (if did \<in> fst ` set (doctors g2) \<and> (did, pid) \<notin> set (treats g2)
                      then (Inr pid, g2\<lparr>treats := treats g2 @ [(did, pid)]\<rparr>)
                      else (Inr pid, g2)))"

definition create_appointment ::
  "int \<Rightarrow> string \<Rightarrow> int \<Rightarrow> graph \<Rightarrow> (graph_error + int) \<times> graph" where
  \<comment> \<open>The id is taken from the counter first, in a statement of its own. The CREATE runs
      once for every (doctor, patient) pair of nodes that the MATCH finds: not at all when
      either node is missing; it is refused, and the driver raises, when it would give the
      id to a second Appointment node (uniqueness constraint on \<open>Appointment.id\<close>).\<close>
  "create_appointment doctor_id date_str patient_id g =
     (let (aid, g1) = next_id ''Appointment'' g;
          n = length [(d, p). d \<leftarrow> doctors g1, fst d = doctor_id,
                              p \<leftarrow> patients g1, fst p = patient_id]
      in if n = 0 then (Inr aid, g1)
         else if 1 < n \<or> aid \<in> fst ` set (appointments g1) then (Inl ConstraintError, g1)
         else (Inr aid,
               g1\<lparr>appointments := appointments g1 @ [(aid, date_str)],
                  doctor_has_appointment := doctor_has_appointment g1 @ [(doctor_id, aid)],
                  patient_has_appointment := patient_has_appointment g1 @ [(patient_id, aid)]\<rparr>))"

record file_info =
  fi_file_id :: int
  fi_filename :: string
  fi_file_type :: string
  fi_file_size :: int
  fi_upload_date :: string
  fi_description :: "string option"

definition file_info_of :: "medical_file \<Rightarrow> file_info" where
  "file_info_of mf =
     \<lparr>fi_file_id = mf_id mf, fi_filename = mf_filename mf, fi_file_type = mf_file_type mf,
      fi_file_size = mf_file_size mf, fi_upload_date = mf_upload_date mf,
      fi_description = mf_description mf\<rparr>"

definition files_of_observation :: "graph \<Rightarrow> int \<Rightarrow> medical_file list" where
  \<comment> \<open>\<open>MATCH (o:Observation {id})-[:HAS_FILE]->(mf:MedicalFile) RETURN mf
      ORDER BY mf.upload_date DESC\<close>\<close>
  "files_of_observation g observation_id =
     rev (sort_key mf_upload_date
       [mf. ob \<leftarrow> observations g, ob = observation_id,
            (src, dst) \<leftarrow> has_file g, src = ob,
            mf \<leftarrow> medical_files g, mf_id mf = dst])"

definition get_files_by_observation :: "bool \<Rightarrow> graph \<Rightarrow> int \<Rightarrow> file_info list" where
  \<comment> \<open>The loop only rebinds \<open>mf\<close>; the single \<open>append\<close> comes after it. With no record
      \<open>mf\<close> is unbound and the NameError is caught by the handler, which returns \<open>[]\<close>.
      The result is iterated after its session block has been left: \<open>readable\<close> says
      whether the driver still hands out the records then; if not, the iteration raises
      and the handler returns \<open>[]\<close> as well.\<close>
  "get_files_by_observation readable g observation_id =
     (if \<not> readable then []
      else case files_of_observation g observation_id of
             [] \<Rightarrow> []
           | r # rs \<Rightarrow> [file_info_of (last (r # rs))])"

subsection \<open>Example graph\<close>

definition scan_a :: medical_file where
  "scan_a = \<lparr>mf_id = 10, mf_filename = ''a.png'', mf_file_type = ''image/png'',
     mf_file_size = 2, mf_file_data = ''xy'', mf_upload_date = ''2024-01-02T10:00:00'',
     mf_description = None\<rparr>"

definition scan_b :: medical_file where
  "scan_b = \<lparr>mf_id = 11, mf_filename = ''b.png'', mf_file_type = ''image/png'',
     mf_file_size = 1, mf_file_data = ''z'', mf_upload_date = ''2024-03-05T09:30:00'',
     mf_description = Some ''follow-up''\<rparr>"

definition two_files_graph :: graph where
  \<comment> \<open>Observation 1 with two linked files, observation 2 with none.\<close>
  "two_files_graph =
     \<lparr>counter = Some [''medicalfile'' \<mapsto> 12], departments = [], doctors = [],
      has_doctor = [], patients = [], treats = [], appointments = [],
      doctor_has_appointment = [], patient_has_appointment = [], observations = [1, 2],
      medical_files = [scan_a, scan_b], has_file = [(1, 10), (1, 11)]\<rparr>"


section \<open>Messaging on the document store\<close>

text \<open>
  The collections of \<open>mongodb_messaging.py\<close> are lists of documents in insertion order,
  the order in which an unsorted \<open>find\<close> scans them. An ObjectId is modelled by its
  hexadecimal rendering, so \<open>str(oid)\<close> is the value itself; a timestamp is an integer
  count of microseconds. The values that the environment supplies during a call (the
  ObjectId that \<open>insert_one\<close> assigns, the readings of the clock) are arguments, and \<open>up\<close>
  says whether the server answers: if it does not, the first collection operation raises
  and the method's handler returns its failure value.
\<close>

type_synonym object_id = string

record conversation =
  c_id :: object_id
  participants :: "string list"
  created_at :: int
  last_activity :: int
  message_count :: int

definition has_all :: "string list \<Rightarrow> string list \<Rightarrow> bool" where
  \<comment> \<open>the query operator \<open>{"$all": wanted}\<close> on an array field\<close>
  "has_all arr wanted = list_all (\<lambda>w. w \<in> set arr) wanted"

definition get_or_create_conversation ::
  "bool \<Rightarrow> object_id \<Rightarrow> int \<Rightarrow> int \<Rightarrow> string \<Rightarrow> string \<Rightarrow> conversation list
   \<Rightarrow> object_id option \<times> conversation list" where
  "get_or_create_conversation up new_id now1 now2 participant1_id participant2_id convs =
     (if \<not> up then (None, convs)
      else case find (\<lambda>c. has_all (participants c) [participant1_id, participant2_id]) convs of
             Some conversation \<Rightarrow> (Some (c_id conversation), convs)
           | None \<Rightarrow>
               (Some new_id,
                convs @ [\<lparr>c_id = new_id, participants = [participant1_id, participant2_id],
                          created_at = now1, last_activity = now2, message_count = 0\<rparr>]))"

type_synonym conversation_call = "bool \<times> object_id \<times> int \<times> int \<times> string \<times> string"

fun later_calls :: "conversation_call list \<Rightarrow> conversation list \<Rightarrow> conversation list" where
  \<comment> \<open>Any further calls of \<open>get_or_create_conversation\<close>, one after the other.\<close>
  "later_calls [] convs = convs"
| "later_calls ((up, new_id, now1, now2, p1, p2) # calls) convs =
     later_calls calls (snd (get_or_create_conversation up new_id now1 now2 p1 p2 convs))"

definition one_per_pair :: "conversation list \<Rightarrow> bool" where
  \<comment> \<open>No two conversation documents have the same unordered set of participants.\<close>
  "one_per_pair convs = distinct (map (\<lambda>c. set (participants c)) convs)"

record 'ts message =
  m_id :: object_id
  conversation_id :: string
  sender_id :: string
  message_text :: string
  timestamp :: 'ts
  message_type :: string
  is_read :: bool

definition render :: "(int \<Rightarrow> string) \<Rightarrow> int message \<Rightarrow> string message" where
  \<comment> \<open>The loop body: \<open>_id\<close> becomes its string, \<open>timestamp\<close> its \<open>isoformat()\<close>.\<close>
  "render isoformat m =
     \<lparr>m_id = m_id m, conversation_id = conversation_id m, sender_id = sender_id m,
      message_text = message_text m, timestamp = isoformat (timestamp m),
      message_type = message_type m, is_read = is_read m\<rparr>"

definition cursor_page :: "int message list \<Rightarrow> string \<Rightarrow> int \<Rightarrow> int \<Rightarrow> int message list" where
  \<comment> \<open>\<open>find({"conversation_id": cid}).sort("timestamp", -1).skip(skip).limit(limit)\<close> for
      \<open>skip \<ge> 0\<close>. The driver sends \<open>abs(limit)\<close> as the limit when \<open>limit\<close> is not 0, and no
      limit at all when it is 0.\<close>
  "cursor_page msgs cid limit skip =
     (let found = filter (\<lambda>m. conversation_id m = cid) msgs;
          ordered = sort_key (\<lambda>m. - timestamp m) found;
          skipped = drop (nat skip) ordered
      in if limit = 0 then skipped else take (nat \<bar>limit\<bar>) skipped)"

definition get_conversation_messages ::
  "bool \<Rightarrow> (int \<Rightarrow> string) \<Rightarrow> int message list \<Rightarrow> string \<Rightarrow> int \<Rightarrow> int
   \<Rightarrow> string message list" where
  \<comment> \<open>\<open>Cursor.skip\<close> raises ValueError on a negative argument; the handler returns \<open>[]\<close>.\<close>
  "get_conversation_messages up isoformat msgs cid limit skip =
     (if \<not> up \<or> skip < 0 then []
      else rev (map (render isoformat) (cursor_page msgs cid limit skip)))"


section \<open>Input validation of the GUI modules\<close>

text \<open>
  \<open>validate_date_yyyy_mm_dd\<close> and \<open>safe_select\<close> of \<open>clinic_v2_enhanced_v2.py\<close> (MySQL) and
  \<open>clinic_v2_enhanced.py\<close> (Neo4j). The date validator is the same text in both modules.
\<close>

definition isdigit :: "char \<Rightarrow> bool" where
  \<comment> \<open>\<open>\d\<close> on a code point below 256\<close>
  "isdigit c = (let n = (of_char c :: nat) in 48 \<le> n \<and> n \<le> 57)"

definition date_shape :: "string \<Rightarrow> bool" where
  \<comment> \<open>four digits, a hyphen, two digits, a hyphen, two digits, and nothing else\<close>
  "date_shape s =
     (length s = 10 \<and> list_all isdigit (take 4 s) \<and> take 1 (drop 4 s) = ''-'' \<and>
      list_all isdigit (take 2 (drop 5 s)) \<and> take 1 (drop 7 s) = ''-'' \<and>
      list_all isdigit (drop 8 s))"

definition re_match_date :: "string \<Rightarrow> bool" where
  \<comment> \<open>\<open>re.match(r"^\d{4}-\d{2}-\d{2}$", s)\<close>; \<open>$\<close> also matches before one final newline\<close>
  "re_match_date s =
     (date_shape s \<or> (length s = 11 \<and> last s = CHR 0x0A \<and> date_shape (butlast s)))"

definition int_of_digits :: "string \<Rightarrow> int" where
  "int_of_digits ds = foldl (\<lambda>a c. 10 * a + (int (of_char c) - 48)) 0 ds"

definition is_leap :: "int \<Rightarrow> bool" where
  "is_leap y = (y mod 4 = 0 \<and> (y mod 100 \<noteq> 0 \<or> y mod 400 = 0))"

definition days_in_month :: "int \<Rightarrow> int \<Rightarrow> int" where
  "days_in_month y m =
     (if m = 2 then (if is_leap y then 29 else 28)
      else if m = 4 \<or> m = 6 \<or> m = 9 \<or> m = 11 then 30 else 31)"

definition strptime_ymd :: "string \<Rightarrow> (int \<times> int \<times> int) option" where
  \<comment> \<open>\<open>datetime.strptime(s, "%Y-%m-%d")\<close> on a string that matched the pattern; None is
      its ValueError: text left over after the day (the final newline), a month outside
      01..12, a day outside the month, or the year 0000.\<close>
  "strptime_ymd s =
     (if \<not> date_shape s then None
      else let y = int_of_digits (take 4 s);
               m = int_of_digits (take 2 (drop 5 s));
               d = int_of_digits (drop 8 s)
           in if 1 \<le> y \<and> 1 \<le> m \<and> m \<le> 12 \<and> 1 \<le> d \<and> d \<le> days_in_month y m
              then Some (y, m, d) else None)"

definition validate_date_yyyy_mm_dd :: "string \<Rightarrow> bool" where
  "validate_date_yyyy_mm_dd date_str =
     (if \<not> re_match_date date_str then False
      else case strptime_ymd date_str of Some _ \<Rightarrow> True | None \<Rightarrow> False)"

datatype 'e query_error = ValueError | DriverError 'e

definition safe_select_mysql ::
  "(string \<Rightarrow> 'p \<Rightarrow> 'e + (string list option \<times> 'row list)) \<Rightarrow> string \<Rightarrow> 'p
   \<Rightarrow> 'e query_error + (string list \<times> 'row list)" where
  \<comment> \<open>\<open>run query params\<close> stands for \<open>cursor.execute(query, params)\<close>, \<open>fetchall()\<close> and the
      column names of \<open>cursor.description\<close>; an exception of the driver propagates.\<close>
  "safe_select_mysql run query params =
     (let q = strip query
      in if \<not> startswith (lower q) ''select'' then Inl ValueError
         else case run query params of
                Inl e \<Rightarrow> Inl (DriverError e)
              | Inr (description, rows) \<Rightarrow>
                  Inr (case description of None \<Rightarrow> [] | Some names \<Rightarrow> names, rows))"

definition safe_select_neo4j ::
  "(string \<Rightarrow> 'e + (string \<times> 'v) list list) \<Rightarrow> string \<Rightarrow> 'p
   \<Rightarrow> 'e query_error + (string list \<times> 'v option list list)" where
  \<comment> \<open>\<open>run q\<close> stands for the records of \<open>session.run(q)\<close>, each a list of key-value pairs;
      the parameters are not used.\<close>
  "safe_select_neo4j run query params =
     (let q = strip query
      in if \<not> (startswith (lower q) ''match'' \<or> startswith (lower q) ''return'')
         then Inl ValueError
         else case run q of
                Inl e \<Rightarrow> Inl (DriverError e)
              | Inr records \<Rightarrow>
                  (let colnames = (case records of [] \<Rightarrow> [] | r # _ \<Rightarrow> map fst r)
                   in Inr (colnames, map (\<lambda>rec. map (map_of rec) colnames) records)))"

definition echo_mysql :: "string \<Rightarrow> unit \<Rightarrow> string + (string list option \<times> unit list)" where
  \<comment> \<open>A driver that fails on every statement and reports the text it was given.\<close>
  "echo_mysql stmt params = Inl stmt"

definition echo_neo4j :: "string \<Rightarrow> string + (string \<times> unit) list list" where
  "echo_neo4j stmt = Inl stmt"


section \<open>MySQL variant: tables, cursor and handlers\<close>

text \<open>
  The tables that the statements of \<open>clinic_v2_enhanced_v2.py\<close> and of \<open>store_file\<close> and
  \<open>retrieve_file\<close> in \<open>clinic_v2_withoutGUI.py\<close> touch, as lists of rows in primary-key
  order, each AUTO_INCREMENT column with its next value. Primary and foreign keys are
  checked as the schema of the module declares them; column sizes and server limits are not
  modelled, and the comparison of strings in a WHERE clause is equality (a collation that
  ignores case is not modelled). The one shared cursor is unbuffered: a \<open>fetchone\<close> that leaves rows of a result
  unread makes the connection refuse the next statement (InternalError, "Unread result
  found"). \<open>issued\<close> logs the statements that reach the server.
\<close>

datatype db_error = InternalError | IntegrityError

datatype store_call =
    SelectDoctors int
  | SelectPatient string string
  | InsertPatient string string int
  | InsertAppointment int string int
  | InsertFile string
  | SelectFile int
  | Commit

record file_row =
  fr_file_id :: int
  fr_filename :: string
  fr_file_type :: string
  fr_file_size :: int
  fr_file_data :: bytes
  fr_upload_date :: string
  fr_observation_id :: "int option"
  fr_description :: "string option"

record mysql =
  doctor :: "(int \<times> string \<times> string \<times> int option) list"
  patient :: "(int \<times> string \<times> string \<times> int option) list"
  patient_auto :: int
  appointment :: "(int \<times> int option \<times> string \<times> int option) list"
  appointment_auto :: int
  observation :: "int list"
  medical_files_rows :: "file_row list"
  medical_files_auto :: int
  issued :: "store_call list"
  unread_result :: bool

type_synonym 'a db_result = "(db_error + 'a) \<times> mysql"

definition and_then :: "'a db_result \<Rightarrow> ('a \<Rightarrow> mysql \<Rightarrow> 'b db_result) \<Rightarrow> 'b db_result" where
  \<comment> \<open>Sequencing inside a \<open>try\<close> block: an exception skips the rest and keeps the store as
      the failing statement left it.\<close>
  "and_then r f = (case r of (Inl e, db) \<Rightarrow> (Inl e, db) | (Inr a, db) \<Rightarrow> f a db)"

definition execute :: "store_call \<Rightarrow> mysql \<Rightarrow> unit db_result" where
  "execute c db =
     (if unread_result db then (Inl InternalError, db)
      else (Inr (), db\<lparr>issued := issued db @ [c]\<rparr>))"

definition fetchone :: "'r list \<Rightarrow> mysql \<Rightarrow> 'r option \<times> mysql" where
  "fetchone rows db =
     (case rows of
        [] \<Rightarrow> (None, db)
      | [r] \<Rightarrow> (Some r, db)
      | r # _ # _ \<Rightarrow> (Some r, db\<lparr>unread_result := True\<rparr>))"

definition commit :: "mysql \<Rightarrow> unit db_result" where
  "commit db = execute Commit db"

definition insert_patient :: "string \<Rightarrow> string \<Rightarrow> int \<Rightarrow> mysql \<Rightarrow> int db_result" where
  \<comment> \<open>\<open>INSERT INTO patient (first_name, last_name, doctor_id)\<close>; the value is \<open>lastrowid\<close>.\<close>
  "insert_patient first_name last_name doctor_id db =
     and_then (execute (InsertPatient first_name last_name doctor_id) db) (\<lambda>_ db1.
       if doctor_id \<notin> fst ` set (doctor db1) \<or> patient_auto db1 \<in> fst ` set (patient db1)
       then (Inl IntegrityError, db1)
       else (Inr (patient_auto db1),
             db1\<lparr>patient := patient db1 @ [(patient_auto db1, first_name, last_name, Some doctor_id)],
                 patient_auto := patient_auto db1 + 1\<rparr>))"

definition insert_appointment :: "int \<Rightarrow> string \<Rightarrow> int \<Rightarrow> mysql \<Rightarrow> unit db_result" where
  \<comment> \<open>\<open>INSERT INTO appointment (doctor_id, date, patient_id)\<close>\<close>
  "insert_appointment doctor_id date patient_id db =
     and_then (execute (InsertAppointment doctor_id date patient_id) db) (\<lambda>_ db1.
       if doctor_id \<notin> fst ` set (doctor db1) \<or> patient_id \<notin> fst ` set (patient db1)
          \<or> appointment_auto db1 \<in> fst ` set (appointment db1)
       then (Inl IntegrityError, db1)
       else (Inr (),
             db1\<lparr>appointment := appointment db1 @
                    [(appointment_auto db1, Some doctor_id, date, Some patient_id)],
                 appointment_auto := appointment_auto db1 + 1\<rparr>))"

subsection \<open>Booking form\<close>

record gui =
  dept_combo :: string
  dept_map :: "string \<rightharpoonup> int"
  doctor_combo :: string
  doctor_combo_values :: "string list"
  doctor_map :: "string \<rightharpoonup> int"
  fname_entry :: string
  lname_entry :: string
  date_entry :: string

datatype 'e dialog = InputError string | DatabaseError 'e | Success

definition doctor_label :: "string \<Rightarrow> string \<Rightarrow> string" where
  "doctor_label first_name last_name = ''Dr. '' @ first_name @ '' '' @ last_name"

definition on_dept_selected :: "gui \<Rightarrow> mysql \<Rightarrow> db_error dialog option \<times> gui \<times> mysql" where
  \<comment> \<open>\<open>SELECT doctor_id, first_name, last_name FROM doctor WHERE department_id=%s\<close>: the
      statement has no ORDER BY, the rows come in the order of the table.\<close>
  "on_dept_selected ui db =
     (case dept_map ui (dept_combo ui) of
        None \<Rightarrow> (None, ui\<lparr>doctor_combo_values := []\<rparr>, db)
      | Some dept_id \<Rightarrow>
          if dept_id = 0 then (None, ui\<lparr>doctor_combo_values := []\<rparr>, db)
          else case execute (SelectDoctors dept_id) db of
                 (Inl e, db1) \<Rightarrow> (Some (DatabaseError e), ui, db1)
               | (Inr _, db1) \<Rightarrow>
                   (let rows = [(i, fn, ln). (i, fn, ln, dep) \<leftarrow> doctor db1, dep = Some dept_id];
                        names = map (\<lambda>(i, fn, ln). doctor_label fn ln) rows
                    in (None,
                        ui\<lparr>doctor_map := map_of (rev (map (\<lambda>(i, fn, ln). (doctor_label fn ln, i)) rows)),
                           doctor_combo_values := names,
                           doctor_combo := (case names of [] \<Rightarrow> doctor_combo ui | n # _ \<Rightarrow> n)\<rparr>,
                        db1)))"

definition book_statements :: "string \<Rightarrow> string \<Rightarrow> int \<Rightarrow> string \<Rightarrow> mysql \<Rightarrow> unit db_result" where
  \<comment> \<open>The statements of the \<open>try\<close> block of \<open>book_appointment\<close> once the doctor is known.\<close>
  "book_statements fname lname doctor_id date db =
     and_then (execute (SelectPatient fname lname) db) (\<lambda>_ db1.
       let (row, db2) =
             fetchone [i. (i, fn, ln, d) \<leftarrow> patient db1, fn = fname \<and> ln = lname] db1
       in and_then
            (case row of
               Some patient_id \<Rightarrow> (Inr patient_id, db2)
             | None \<Rightarrow>
                 and_then (insert_patient fname lname doctor_id db2) (\<lambda>patient_id db3.
                   and_then (commit db3) (\<lambda>_ db4. (Inr patient_id, db4))))
            (\<lambda>patient_id db5.
               and_then (insert_appointment doctor_id date patient_id db5) (\<lambda>_ db6. commit db6)))"

definition book_appointment_mysql ::
  "string \<Rightarrow> gui \<Rightarrow> mysql \<Rightarrow> db_error dialog \<times> gui \<times> mysql" where
  \<comment> \<open>\<open>today\<close> is \<open>datetime.date.today().strftime("%Y-%m-%d")\<close>.\<close>
  "book_appointment_mysql today ui db =
     (let fname = strip (fname_entry ui);
          lname = strip (lname_entry ui);
          label = doctor_combo ui;
          date = strip (date_entry ui)
      in if fname = [] \<or> lname = [] \<or> label = [] \<or> date = []
         then (InputError ''Please fill in all required fields.'', ui, db)
         else if \<not> validate_date_yyyy_mm_dd date
         then (InputError ''Date must be in YYYY-MM-DD format'', ui, db)
         else case doctor_map ui label of
                None \<Rightarrow> (InputError ''Please select a valid doctor.'', ui, db)
              | Some doctor_id \<Rightarrow>
                  if doctor_id = 0 then (InputError ''Please select a valid doctor.'', ui, db)
                  else case book_statements fname lname doctor_id date db of
                         (Inl e, db') \<Rightarrow> (DatabaseError e, ui, db')
                       | (Inr _, db') \<Rightarrow>
                           (Success,
                            ui\<lparr>fname_entry := [], lname_entry := [], date_entry := today\<rparr>,
                            db'))"

subsection \<open>File storage\<close>

definition rfind :: "char \<Rightarrow> string \<Rightarrow> int" where
  \<comment> \<open>\<open>s.rfind(c)\<close>: the last index of \<open>c\<close>, or -1\<close>
  "rfind c s =
     (if c \<in> set s then int (length s) - 1 - int (length (takeWhile (\<lambda>x. x \<noteq> c) (rev s)))
      else - 1)"

definition basename :: "string \<Rightarrow> string" where
  \<comment> \<open>\<open>os.path.basename\<close> of \<open>posixpath\<close>: what follows the last slash\<close>
  "basename p = drop (nat (rfind CHR ''/'' p + 1)) p"

definition splitext_ext :: "string \<Rightarrow> string" where
  \<comment> \<open>\<open>os.path.splitext(p)[1]\<close>: from the last dot of the last component, unless that
      component has nothing but dots before it\<close>
  "splitext_ext p =
     (let sepIndex = rfind CHR ''/'' p;
          dotIndex = rfind CHR ''.'' p
      in if dotIndex > sepIndex \<and>
            list_ex (\<lambda>c. c \<noteq> CHR ''.'') (take (nat (dotIndex - (sepIndex + 1))) (drop (nat (sepIndex + 1)) p))
         then drop (nat dotIndex) p else [])"

definition insert_file :: "file_row \<Rightarrow> mysql \<Rightarrow> int db_result" where
  \<comment> \<open>\<open>INSERT INTO medical_files (...)\<close>; the row's \<open>file_id\<close> is assigned here, the value
      is \<open>lastrowid\<close>.\<close>
  "insert_file row db =
     and_then (execute (InsertFile (fr_filename row)) db) (\<lambda>_ db1.
       if (case fr_observation_id row of None \<Rightarrow> False | Some ob \<Rightarrow> ob \<notin> set (observation db1))
          \<or> medical_files_auto db1 \<in> fr_file_id ` set (medical_files_rows db1)
       then (Inl IntegrityError, db1)
       else (Inr (medical_files_auto db1),
             db1\<lparr>medical_files_rows := medical_files_rows db1 @
                    [row\<lparr>fr_file_id := medical_files_auto db1\<rparr>],
                 medical_files_auto := medical_files_auto db1 + 1\<rparr>))"

definition store_file ::
  "(string \<Rightarrow> string option) \<Rightarrow> (string \<rightharpoonup> bytes) \<Rightarrow> string \<Rightarrow> string \<Rightarrow> int option
   \<Rightarrow> string option \<Rightarrow> mysql \<Rightarrow> int option \<times> mysql" where
  \<comment> \<open>\<open>guess_type\<close> is \<open>mimetypes.guess_type(path)[0]\<close>, \<open>fs\<close> maps the readable paths to
      their content, \<open>now\<close> is the CURRENT_TIMESTAMP default of \<open>upload_date\<close>. Both handlers
      return None.\<close>
  "store_file guess_type fs now file_path observation_id description db =
     (case fs file_path of
        None \<Rightarrow> (None, db)
      | Some file_data \<Rightarrow>
          (let name = basename file_path;
               guessed = guess_type file_path;
               ftype = (case guessed of
                          None \<Rightarrow> lower (splitext_ext name)
                        | Some t \<Rightarrow> if t = [] then lower (splitext_ext name) else t);
               row = \<lparr>fr_file_id = 0, fr_filename = name, fr_file_type = ftype,
                      fr_file_size = int (length file_data), fr_file_data = file_data,
                      fr_upload_date = now, fr_observation_id = observation_id,
                      fr_description = description\<rparr>
           in case and_then (insert_file row db)
                     (\<lambda>fid db1. and_then (commit db1) (\<lambda>_ db2. (Inr fid, db2))) of
                (Inl e, db') \<Rightarrow> (None, db')
              | (Inr fid, db') \<Rightarrow> (Some fid, db')))"

definition retrieve_file :: "int \<Rightarrow> mysql \<Rightarrow> file_row option \<times> mysql" where
  \<comment> \<open>\<open>SELECT ... FROM medical_files WHERE file_id = %s\<close> and \<open>fetchone()\<close>; the dictionary
      returned has the eight columns of the row.\<close>
  "retrieve_file fid db =
     (case execute (SelectFile fid) db of
        (Inl e, db1) \<Rightarrow> (None, db1)
      | (Inr _, db1) \<Rightarrow> fetchone [r \<leftarrow> medical_files_rows db1. fr_file_id r = fid] db1)"


subsection \<open>Sample data of the MySQL variant\<close>

definition seed_doctors :: "(int \<times> string \<times> string \<times> int option) list" where
  \<comment> \<open>the rows of \<open>insert_doctor_data\<close>, numbered by AUTO_INCREMENT\<close>
  "seed_doctors =
    [
     (1, ''Anna'', ''Johnson'', Some 1),
     (2, ''Michael'', ''Chen'', Some 1),
     (3, ''Reine'', ''Bergstr'' @ [CHR 0xF6] @ ''m'', Some 1),
     (4, ''Erik'', ''Andersson'', Some 2),
     (5, ''Sarah'', ''Williams'', Some 2),
     (6, ''James'', ''Brown'', Some 3),
     (7, ''Lisa'', ''Garcia'', Some 3),
     (8, ''Robert'', ''Davis'', Some 4),
     (9, ''Maria'', ''Rodriguez'', Some 4),
     (10, ''David'', ''Miller'', Some 5),
     (11, ''Jennifer'', ''Wilson'', Some 5),
     (12, ''Christopher'', ''Moore'', Some 6),
     (13, ''Amanda'', ''Taylor'', Some 6),
     (14, ''Daniel'', ''Anderson'', Some 7),
     (15, ''Jessica'', ''Thomas'', Some 7),
     (16, ''Datthew'', ''Jackson'', Some 8),
     (17, ''Ashley'', ''White'', Some 8),
     (18, ''Andrew'', ''Harris'', Some 9),
     (19, ''Samantha'', ''Martin'', Some 9),
     (20, ''Joshua'', ''Thompson'', Some 10),
     (21, ''Nicole'', ''Garcia'', Some 10),
     (22, ''Kevin'', ''Martinez'', Some 11),
     (23, ''Rachel'', ''Robinson'', Some 11),
     (24, ''Brian'', ''Clark'', Some 12),
     (25, ''Lauren'', ''Rodriguez'', Some 12),
     (26, ''Ryan'', ''Lewis'', Some 13),
     (27, ''Megan'', ''Lee'', Some 13),
     (28, ''Tyler'', ''Walker'', Some 14),
     (29, ''Stephanie'', ''Hall'', Some 14),
     (30, ''Nathan'', ''Allen'', Some 15),
     (31, ''Danielle'', ''Young'', Some 15),
     (32, ''Justin'', ''King'', Some 16),
     (33, ''Michelle'', ''Wright'', Some 16),
     (34, ''Brandon'', ''Scott'', Some 17),
     (35, ''Kimberly'', ''Torres'', Some 17),
     (36, ''Jacob'', ''Nguyen'', Some 18),
     (37, ''Angela'', ''Hill'', Some 18),
     (38, ''Zachary'', ''Flores'', Some 19),
     (39, ''Heather'', ''Green'', Some 19),
     (40, ''Aaron'', ''Adams'', Some 20),
     (41, ''Rebecca'', ''Nelson'', Some 20),
     (42, ''Kyle'', ''Baker'', Some 21),
     (43, ''Victoria'', ''Carter'', Some 21),
     (44, ''Ethan'', ''Mitchell'', Some 22),
     (45, ''Christina'', ''Perez'', Some 22),
     (46, ''Noah'', ''Roberts'', Some 23),
     (47, ''Kelly'', ''Turner'', Some 23),
     (48, ''Logan'', ''Phillips'', Some 24),
     (49, ''Amy'', ''Campbell'', Some 24)]"

definition seed_db :: mysql where
  \<comment> \<open>the tables after \<open>insert_all_sample_data\<close>, as far as the handlers read them\<close>
  "seed_db =
     \<lparr>doctor = seed_doctors,
      patient = [(1, ''Lars'', ''Nilsson'', Some 1), (2, ''Maria'', ''Garcia'', Some 1)],
      patient_auto = 3,
      appointment = [(1, Some 1, ''2024-01-15'', Some 1), (2, Some 2, ''2024-01-16'', Some 2),
                     (3, Some 1, ''2024-01-17'', Some 1), (4, Some 2, ''2024-01-18'', Some 2)],
      appointment_auto = 5,
      observation = [1, 2, 3, 4, 5, 6, 7],
      medical_files_rows = [],
      medical_files_auto = 1,
      issued = [],
      unread_result = False\<rparr>"

definition booking_form :: "string \<Rightarrow> string \<Rightarrow> string \<Rightarrow> gui" where
  \<comment> \<open>The booking tab with department 4 selected, its doctors loaded, and the three
      entries filled in.\<close>
  "booking_form first_name last_name date =
     \<lparr>dept_combo = ''Internal medicine'',
      dept_map = [''Cardiology'' \<mapsto> 1, ''Internal medicine'' \<mapsto> 4],
      doctor_combo = ''Dr. Robert Davis'',
      doctor_combo_values = [''Dr. Robert Davis'', ''Dr. Maria Rodriguez''],
      doctor_map = [''Dr. Robert Davis'' \<mapsto> 8, ''Dr. Maria Rodriguez'' \<mapsto> 9],
      fname_entry = first_name, lname_entry = last_name, date_entry = date\<rparr>"


section \<open>Neo4j variant: booking form\<close>

definition book_appointment_neo4j ::
  "string \<Rightarrow> gui \<Rightarrow> graph \<Rightarrow> graph_error dialog \<times> gui \<times> graph" where
  \<comment> \<open>\<open>book_appointment\<close> of \<open>clinic_v2_enhanced.py\<close>: the same form and checks as in the
      MySQL variant, with the helpers of the graph store in the \<open>try\<close> block; an exception
      of a helper ends in the "Database Error" dialog, with the form as it was.\<close>
  "book_appointment_neo4j today ui g =
     (let fname = strip (fname_entry ui);
          lname = strip (lname_entry ui);
          label = doctor_combo ui;
          date = strip (date_entry ui)
      in if fname = [] \<or> lname = [] \<or> label = [] \<or> date = []
         then (InputError ''Please fill in all required fields.'', ui, g)
         else if \<not> validate_date_yyyy_mm_dd date
         then (InputError ''Date must be in YYYY-MM-DD format'', ui, g)
         else case doctor_map ui label of
                None \<Rightarrow> (InputError ''Please select a valid doctor.'', ui, g)
              | Some doctor_id \<Rightarrow>
                  if doctor_id = 0 then (InputError ''Please select a valid doctor.'', ui, g)
                  else case (case get_patient_by_name g fname lname of
                               Some found \<Rightarrow> (Inr (fst found), g)
                             | None \<Rightarrow> create_patient fname lname (Some doctor_id) g) of
                         (Inl e, g1) \<Rightarrow> (DatabaseError e, ui, g1)
                       | (Inr patient_id, g1) \<Rightarrow>
                           (case create_appointment doctor_id date patient_id g1 of
                              (Inl e, g2) \<Rightarrow> (DatabaseError e, ui, g2)
                            | (Inr aid, g2) \<Rightarrow>
                                (Success,
                                 ui\<lparr>fname_entry := [], lname_entry := [], date_entry := today\<rparr>,
                                 g2)))"

definition seed_graph :: graph where
  \<comment> \<open>A small graph of the shape that \<open>insert_all_sample_data\<close> builds.\<close>
  "seed_graph =
     \<lparr>counter = Some [''clinic'' \<mapsto> 3, ''department'' \<mapsto> 5, ''doctor'' \<mapsto> 10,
                       ''patient'' \<mapsto> 3, ''appointment'' \<mapsto> 5, ''observation'' \<mapsto> 1,
                       ''diagnosis'' \<mapsto> 1, ''medicalfile'' \<mapsto> 1],
      departments = [(1, ''Cardiology''), (4, ''Internal medicine'')],
      doctors = [(1, ''Anna'', ''Johnson''), (8, ''Robert'', ''Davis''), (9, ''Maria'', ''Rodriguez'')],
      has_doctor = [(1, 1), (4, 8), (4, 9)],
      patients = [(1, ''Lars'', ''Nilsson''), (2, ''Maria'', ''Garcia'')],
      treats = [(1, 1), (1, 2)],
      appointments = [(1, ''2024-01-15'')],
      doctor_has_appointment = [(1, 1)],
      patient_has_appointment = [(1, 1)],
      observations = [],
      medical_files = [],
      has_file = []\<rparr>"


definition stale_graph :: graph where
  \<comment> \<open>\<open>seed_graph\<close> with an appointment counter that points at the id of an existing
      Appointment node.\<close>
  "stale_graph =
     seed_graph\<lparr>counter := Some [''clinic'' \<mapsto> 3, ''department'' \<mapsto> 5, ''doctor'' \<mapsto> 10,
                       ''patient'' \<mapsto> 3, ''appointment'' \<mapsto> 1, ''observation'' \<mapsto> 1,
                       ''diagnosis'' \<mapsto> 1, ''medicalfile'' \<mapsto> 1]\<rparr>"

section \<open>Properties of the sequence allocator\<close>

lemma next_id_stored:
  assumes "stored g t = Some v"
  shows "fst (next_id t g) = v" and "stored (snd (next_id t g)) t = Some (v + 1)"
  using assms
  by (auto simp: stored_def next_id_def coalesce_def Let_def split: option.splits)

lemma next_ids_stored:
  "stored g t = Some v \<Longrightarrow>
   fst (next_ids t n g) = map (\<lambda>k. v + int k) [0..<n] \<and>
   stored (snd (next_ids t n g)) t = Some (v + int n)"
proof (induction n arbitrary: g v)
  case 0
  then show ?case by simp
next
  case (Suc n)
  obtain i g' where step: "next_id t g = (i, g')" by (cases "next_id t g")
  with Suc.prems next_id_stored [of g t v]
  have i: "i = v" and g': "stored g' t = Some (v + 1)" by simp_all
  from Suc.IH [OF g']
  have rest: "fst (next_ids t n g') = map (\<lambda>k. v + 1 + int k) [0..<n]"
    and fin: "stored (snd (next_ids t n g')) t = Some (v + 1 + int n)" by simp_all
  have "map (\<lambda>k. v + int k) [0..<Suc n] = v # map (\<lambda>k. v + 1 + int k) [0..<n]"
    by (simp add: upt_conv_Cons map_Suc_upt [symmetric] del: upt_Suc)
  with step i rest fin show ?case
    by (simp add: split_beta add.assoc del: upt_Suc)
qed

lemma next_id_no_counter: "counter g = None \<Longrightarrow> next_id t g = (1, g)"
  by (simp add: next_id_def)

lemma next_ids_no_counter: "counter g = None \<Longrightarrow> next_ids t n g = (replicate n 1, g)"
  by (induction n) (simp_all add: next_id_no_counter)

text \<open>
  C1. When the counter record exists and holds \<open>v\<close> for the label \<open>t\<close>, \<open>n\<close> successive
  calls of \<open>_next_id(t)\<close> return \<open>v, v+1, ..., v+n-1\<close> in this order; these are distinct and
  strictly increasing; a single call returns the stored value and leaves it incremented
  by one, and after the \<open>n\<close> calls the record holds \<open>v + n\<close>.
\<close>

theorem next_id_sequence:
  assumes "stored g t = Some v"
  shows "fst (next_ids t n g) = map (\<lambda>k. v + int k) [0..<n] \<and>
         distinct (fst (next_ids t n g)) \<and>
         sorted_wrt (<) (fst (next_ids t n g)) \<and>
         fst (next_id t g) = v \<and>
         stored (snd (next_id t g)) t = Some (v + 1) \<and>
         stored (snd (next_ids t n g)) t = Some (v + int n)"
proof -
  have eq: "fst (next_ids t n g) = map (\<lambda>k. v + int k) [0..<n]"
    using next_ids_stored [OF assms] by simp
  have sw: "sorted_wrt (<) (map (\<lambda>k. v + int k) [0..<n])"
    by (simp add: sorted_wrt_map sorted_wrt_iff_nth_less)
  have di: "distinct (map (\<lambda>k. v + int k) [0..<n])"
    by (simp add: distinct_map inj_on_def)
  show ?thesis
    using eq sw di next_id_stored [OF assms] next_ids_stored [OF assms] by simp
qed

theorem next_id_sequence_witness:
  "fst (next_ids ''Patient'' 3 \<lparr>counter = Some [''patient'' \<mapsto> 7], departments = [],
      doctors = [], has_doctor = [], patients = [], treats = [], appointments = [],
      doctor_has_appointment = [], patient_has_appointment = [], observations = [],
      medical_files = [], has_file = []\<rparr>) = [7, 8, 9]"
proof -
  let ?g = "\<lparr>counter = Some [''patient'' \<mapsto> 7], departments = [],
      doctors = [], has_doctor = [], patients = [], treats = [], appointments = [],
      doctor_has_appointment = [], patient_has_appointment = [], observations = [],
      medical_files = [], has_file = []\<rparr>"
  have "lower ''Patient'' = ''patient''" by code_simp
  then have h: "stored ?g ''Patient'' = Some 7"
    by (simp add: stored_def)
  have "map (\<lambda>k. 7 + int k) [0..<3] = [7, 8, 9]"
    by (simp add: upt_rec)
  with next_id_sequence [OF h, of 3] show ?thesis by simp
qed

text \<open>
  C10. When no Counter record named \<open>global_ids\<close> exists, \<open>_next_id(t)\<close> returns 1 for every
  label and leaves the store as it is (the record is neither created nor incremented);
  repeated calls therefore all return 1, and two or more of them are not distinct.
\<close>

theorem next_id_without_counter:
  assumes "counter g = None"
  shows "next_id t g = (1, g) \<and> next_ids t n g = (replicate n 1, g) \<and>
         (if 2 \<le> n then \<not> distinct (fst (next_ids t n g)) else True)"
proof -
  have "\<not> distinct (replicate n (1::int))" if "2 \<le> n"
  proof -
    from that obtain m where "n = Suc (Suc m)"
      by (metis Suc_le_D numeral_2_eq_2 Suc_le_mono le0 add_2_eq_Suc le_Suc_ex)
    then show ?thesis by simp
  qed
  then show ?thesis
    using next_id_no_counter [OF assms] next_ids_no_counter [OF assms] by simp
qed

theorem next_id_without_counter_witness:
  "fst (next_ids ''Doctor'' 2 \<lparr>counter = None, departments = [],
      doctors = [], has_doctor = [], patients = [], treats = [], appointments = [],
      doctor_has_appointment = [], patient_has_appointment = [], observations = [],
      medical_files = [], has_file = []\<rparr>) = [1, 1]"
proof -
  let ?g = "\<lparr>counter = None, departments = [],
      doctors = [], has_doctor = [], patients = [], treats = [], appointments = [],
      doctor_has_appointment = [], patient_has_appointment = [], observations = [],
      medical_files = [], has_file = []\<rparr>"
  have h: "counter ?g = None" by simp
  have "replicate 2 (1::int) = [1, 1]" by (simp add: numeral_2_eq_2)
  with next_id_without_counter [OF h, of "''Doctor''" 2] show ?thesis by simp
qed

section \<open>Properties of the Neo4j query helpers\<close>

lemma files_of_observation_unlinked:
  assumes "\<forall>f. (oid, f) \<notin> set (has_file g)"
  shows "files_of_observation g oid = []"
proof -
  define rows where "rows = [mf. ob \<leftarrow> observations g, ob = oid,
             (src, dst) \<leftarrow> has_file g, src = ob,
             mf \<leftarrow> medical_files g, mf_id mf = dst]"
  have "rows = []"
    unfolding rows_def using assms by (fastforce simp: concat_eq_Nil_conv)
  moreover have "files_of_observation g oid = rev (sort_key mf_upload_date rows)"
    unfolding files_of_observation_def rows_def ..
  ultimately show ?thesis by simp
qed

text \<open>
  C9. In the Neo4j variant \<open>get_files_by_observation\<close> returns at most one entry: when the
  records can be read and at least one file is linked it is the metadata of the last record
  of the result (the \<open>append\<close> stands after the loop), however many files are linked; it
  returns the empty list when no file is linked to the observation.
\<close>

theorem get_files_by_observation_at_most_one:
  "length (get_files_by_observation readable g oid) \<le> 1 \<and>
   get_files_by_observation readable g oid =
     (if readable \<and> files_of_observation g oid \<noteq> []
      then [file_info_of (last (files_of_observation g oid))] else []) \<and>
   ((\<forall>f. (oid, f) \<notin> set (has_file g)) \<longrightarrow> get_files_by_observation readable g oid = [])"
proof -
  have a: "get_files_by_observation readable g oid =
     (if readable \<and> files_of_observation g oid \<noteq> []
      then [file_info_of (last (files_of_observation g oid))] else [])"
    by (simp add: get_files_by_observation_def split: list.splits)
  have b: "get_files_by_observation readable g oid = []"
    if "\<forall>f. (oid, f) \<notin> set (has_file g)"
    using files_of_observation_unlinked [OF that] by (simp add: a)
  from a b show ?thesis by simp
qed


theorem get_files_by_observation_at_most_one_witness:
  "length (files_of_observation two_files_graph 1) = 2 \<and>
   get_files_by_observation True two_files_graph 1 = [file_info_of scan_a] \<and>
   get_files_by_observation True two_files_graph 2 = []"
proof -
  have rows: "files_of_observation two_files_graph 1 = [scan_b, scan_a]"
    by code_simp
  have none: "\<forall>f. (2, f) \<notin> set (has_file two_files_graph)"
    by (simp add: two_files_graph_def)
  have r1: "get_files_by_observation True two_files_graph 1 = [file_info_of scan_a]"
    using get_files_by_observation_at_most_one [of True two_files_graph 1] rows by simp
  have r2: "get_files_by_observation True two_files_graph 2 = []"
    using get_files_by_observation_at_most_one [of True two_files_graph 2] none by blast
  show ?thesis using rows r1 r2 by simp
qed

section \<open>Properties of the messaging store\<close>

lemma has_all_pair: "has_all arr [a, b] \<longleftrightarrow> a \<in> set arr \<and> b \<in> set arr"
  by (simp add: has_all_def)

lemma has_all_commute: "has_all arr [a, b] = has_all arr [b, a]"
  by (auto simp: has_all_pair)

lemma find_append_Some: "find P xs = Some x \<Longrightarrow> find P (xs @ ys) = Some x"
  by (induction xs) (auto split: if_splits)

lemma find_append_None: "find P xs = None \<Longrightarrow> find P (xs @ ys) = find P ys"
  by (induction xs) (auto split: if_splits)

lemma get_or_create_appends:
  "\<exists>ys. snd (get_or_create_conversation up new_id n1 n2 p1 p2 convs) = convs @ ys"
  by (simp add: get_or_create_conversation_def split: option.splits)

lemma later_calls_appends: "\<exists>ys. later_calls calls convs = convs @ ys"
proof (induction calls arbitrary: convs)
  case Nil
  then show ?case by simp
next
  case (Cons call calls)
  obtain up new_id n1 n2 p1 p2 where call: "call = (up, new_id, n1, n2, p1, p2)"
    by (cases call) auto
  obtain ys where ys: "snd (get_or_create_conversation up new_id n1 n2 p1 p2 convs) = convs @ ys"
    using get_or_create_appends by blast
  obtain zs where "later_calls calls (convs @ ys) = (convs @ ys) @ zs"
    using Cons.IH by blast
  with call ys show ?case by simp
qed

lemma get_or_create_found:
  assumes "get_or_create_conversation up new_id n1 n2 a b convs = (Some cid, convs1)"
  shows "\<exists>c. find (\<lambda>c. has_all (participants c) [a, b]) convs1 = Some c \<and> c_id c = cid"
  using assms
  by (auto simp: get_or_create_conversation_def find_append_None has_all_pair
      split: if_splits option.splits)

lemma get_or_create_one_per_pair:
  assumes "one_per_pair convs"
  shows "one_per_pair (snd (get_or_create_conversation up new_id n1 n2 p1 p2 convs))"
proof (cases "up \<and> find (\<lambda>c. has_all (participants c) [p1, p2]) convs = None")
  case True
  then have "\<not> has_all (participants c) [p1, p2]" if "c \<in> set convs" for c
    using that by (auto simp: find_None_iff)
  then have "set (participants c) \<noteq> {p1, p2}" if "c \<in> set convs" for c
    using that by (auto simp: has_all_pair)
  then have "{p1, p2} \<notin> (\<lambda>c. set (participants c)) ` set convs"
    by auto
  with assms True show ?thesis
    by (simp add: get_or_create_conversation_def one_per_pair_def insert_commute)
next
  case False
  with assms show ?thesis
    by (auto simp: get_or_create_conversation_def split: option.splits)
qed

lemma later_calls_one_per_pair:
  "one_per_pair convs \<Longrightarrow> one_per_pair (later_calls calls convs)"
proof (induction calls arbitrary: convs)
  case Nil
  then show ?case by simp
next
  case (Cons call calls)
  obtain up new_id n1 n2 p1 p2 where call: "call = (up, new_id, n1, n2, p1, p2)"
    by (cases call) auto
  from Cons.prems
  have "one_per_pair (snd (get_or_create_conversation up new_id n1 n2 p1 p2 convs))"
    by (rule get_or_create_one_per_pair)
  from Cons.IH [OF this] call show ?case by simp
qed

text \<open>
  C2. Once \<open>get_or_create_conversation(A, B)\<close> has returned an identifier, every later call
  for the same unordered pair, as (A, B) or as (B, A) and after any number of further
  calls for any pairs, returns that identifier whenever the server answers, and adds no
  conversation document. If no two documents shared their set of participants before, none
  do afterwards.
\<close>

theorem get_or_create_conversation_stable:
  assumes first: "get_or_create_conversation up new_id n1 n2 a b convs = (Some cid, convs1)"
    and later: "convs2 = later_calls calls convs1"
    and pair: "(a', b') = (a, b) \<or> (a', b') = (b, a)"
  shows "get_or_create_conversation up' new_id' n1' n2' a' b' convs2 =
           ((if up' then Some cid else None), convs2) \<and>
         (if one_per_pair convs then one_per_pair convs2 else True)"
proof -
  obtain c where c: "find (\<lambda>c. has_all (participants c) [a, b]) convs1 = Some c" "c_id c = cid"
    using get_or_create_found [OF first] by blast
  obtain ys where ys: "convs2 = convs1 @ ys"
    using later later_calls_appends by blast
  have ab: "find (\<lambda>c. has_all (participants c) [a, b]) convs2 = Some c"
    using c(1) ys by (simp add: find_append_Some)
  have eq: "(\<lambda>c. has_all (participants c) [a', b']) = (\<lambda>c. has_all (participants c) [a, b])"
    using pair has_all_commute by auto
  have "find (\<lambda>c. has_all (participants c) [a', b']) convs2 = Some c"
    unfolding eq by (rule ab)
  then have call: "get_or_create_conversation up' new_id' n1' n2' a' b' convs2 =
           ((if up' then Some cid else None), convs2)"
    using c(2) by (simp add: get_or_create_conversation_def)
  have "one_per_pair convs2" if "one_per_pair convs"
  proof -
    have "one_per_pair (snd (get_or_create_conversation up new_id n1 n2 a b convs))"
      using that by (rule get_or_create_one_per_pair)
    with first have "one_per_pair convs1" by simp
    with later show ?thesis by (simp add: later_calls_one_per_pair)
  qed
  with call show ?thesis by simp
qed

theorem get_or_create_conversation_stable_witness:
  "get_or_create_conversation True ''65f0c0d3'' 30 31 ''bob'' ''alice''
     (later_calls [(True, ''65f0c0d2'', 20, 21, ''alice'', ''carol'')]
        (snd (get_or_create_conversation True ''65f0c0d1'' 10 11 ''alice'' ''bob'' []))) =
   (Some ''65f0c0d1'',
    later_calls [(True, ''65f0c0d2'', 20, 21, ''alice'', ''carol'')]
        (snd (get_or_create_conversation True ''65f0c0d1'' 10 11 ''alice'' ''bob'' []))) \<and>
   length (later_calls [(True, ''65f0c0d2'', 20, 21, ''alice'', ''carol'')]
        (snd (get_or_create_conversation True ''65f0c0d1'' 10 11 ''alice'' ''bob'' []))) = 2"
proof -
  let ?c1 = "snd (get_or_create_conversation True ''65f0c0d1'' 10 11 ''alice'' ''bob'' [])"
  let ?c2 = "later_calls [(True, ''65f0c0d2'', 20, 21, ''alice'', ''carol'')] ?c1"
  have first: "get_or_create_conversation True ''65f0c0d1'' 10 11 ''alice'' ''bob'' [] =
      (Some ''65f0c0d1'', ?c1)"
    by (simp add: get_or_create_conversation_def)
  have pair: "(''bob'', ''alice'') = (''alice'', ''bob'') \<or> (''bob'', ''alice'') = (''bob'', ''alice'')"
    by simp
  have len: "length ?c2 = 2"
    by (simp add: get_or_create_conversation_def has_all_def)
  from get_or_create_conversation_stable [OF first refl pair, of True "''65f0c0d3''" 30 31
      "[(True, ''65f0c0d2'', 20, 21, ''alice'', ''carol'')]"] len
  show ?thesis by simp
qed

lemma ordered_newest_first:
  "sorted_wrt (\<lambda>x y. timestamp y \<le> timestamp x)
     (sort_key (\<lambda>m. - timestamp m) (xs :: int message list))"
proof -
  have "sorted (map (\<lambda>m. - timestamp m) (sort_key (\<lambda>m. - timestamp m) xs))"
    by (rule sorted_sort_key)
  then show ?thesis by (simp add: sorted_map)
qed

lemma take_drop_split: "xs = take k xs @ take n (drop k xs) @ drop n (drop k xs)"
  by (simp only: append_take_drop_id)

lemma cursor_page_limit_zero:
  "cursor_page msgs cid 0 skip =
     drop (nat skip) (sort_key (\<lambda>m. - timestamp m) (filter (\<lambda>m. conversation_id m = cid) msgs))"
  by (simp add: cursor_page_def)

lemma get_conversation_messages_negative_skip:
  "skip < 0 \<Longrightarrow> get_conversation_messages up isoformat msgs cid limit skip = []"
  by (simp add: get_conversation_messages_def)

text \<open>
  For a limit \<open>N \<ge> 1\<close> and a skip \<open>K \<ge> 0\<close>, on a server that answers,
  \<open>get_conversation_messages\<close> returns the rendering of a list \<open>page\<close> of at most \<open>N\<close> messages
  of the conversation in ascending order of timestamp, such that the conversation's
  messages split into \<open>newer\<close>, \<open>page\<close> and \<open>older\<close>: \<open>newer\<close> are the \<open>K\<close> skipped ones (all
  of them if there are fewer), none of them older than a returned or a remaining message,
  no returned message is older than a remaining one, and messages remain only when the
  page is full.
\<close>

lemma get_conversation_messages_page:
  assumes "0 < limit" and "0 \<le> skip"
  shows "\<exists>page newer older.
           get_conversation_messages True isoformat msgs cid limit skip
             = map (render isoformat) page \<and>
           length page \<le> nat limit \<and>
           sorted (map timestamp page) \<and>
           mset (newer @ page @ older) = mset (filter (\<lambda>m. conversation_id m = cid) msgs) \<and>
           length newer = min (nat skip) (length (filter (\<lambda>m. conversation_id m = cid) msgs)) \<and>
           (\<forall>x\<in>set newer. \<forall>y\<in>set page. timestamp y \<le> timestamp x) \<and>
           (\<forall>y\<in>set page. \<forall>z\<in>set older. timestamp z \<le> timestamp y) \<and>
           (\<forall>x\<in>set newer. \<forall>z\<in>set older. timestamp z \<le> timestamp x) \<and>
           (older = [] \<or> length page = nat limit)"
proof -
  define found where "found = filter (\<lambda>m. conversation_id m = cid) msgs"
  define ordered where "ordered = sort_key (\<lambda>m. - timestamp m) found"
  define newer where "newer = take (nat skip) ordered"
  define desc where "desc = take (nat limit) (drop (nat skip) ordered)"
  define older where "older = drop (nat limit) (drop (nat skip) ordered)"
  let ?R = "\<lambda>x y :: int message. timestamp y \<le> timestamp x"
  have split: "ordered = newer @ desc @ older"
    unfolding newer_def desc_def older_def by (rule take_drop_split)
  have "sorted_wrt ?R ordered"
    unfolding ordered_def by (rule ordered_newest_first)
  then have srt: "sorted_wrt ?R (newer @ desc @ older)"
    using split by simp
  have page: "cursor_page msgs cid limit skip = desc"
    using assms by (simp add: cursor_page_def desc_def ordered_def found_def Let_def)
  have res: "get_conversation_messages True isoformat msgs cid limit skip
      = map (render isoformat) (rev desc)"
    using assms page by (simp add: get_conversation_messages_def rev_map)
  have len: "length (rev desc) \<le> nat limit"
    by (simp add: desc_def)
  have "sorted_wrt ?R desc"
    using srt by (simp add: sorted_wrt_append)
  then have "sorted_wrt (\<lambda>x y. timestamp x \<le> timestamp y) (rev desc)"
    by (simp add: sorted_wrt_rev)
  then have asc: "sorted (map timestamp (rev desc))"
    by (simp only: sorted_map)
  have "mset ordered = mset found"
    by (simp add: ordered_def)
  then have ms: "mset (newer @ rev desc @ older) = mset found"
    using split by (metis mset_append mset_rev)
  have ln: "length newer = min (nat skip) (length found)"
    by (simp add: newer_def ordered_def min.commute)
  have c1: "\<forall>x\<in>set newer. \<forall>y\<in>set (rev desc). timestamp y \<le> timestamp x"
    using srt by (simp add: sorted_wrt_append)
  have c2: "\<forall>y\<in>set (rev desc). \<forall>z\<in>set older. timestamp z \<le> timestamp y"
    using srt by (simp add: sorted_wrt_append)
  have c3: "\<forall>x\<in>set newer. \<forall>z\<in>set older. timestamp z \<le> timestamp x"
    using srt by (simp add: sorted_wrt_append)
  have full: "older = [] \<or> length (rev desc) = nat limit"
    by (auto simp: older_def desc_def)
  show ?thesis
    using res len asc ms ln c1 c2 c3 full unfolding found_def by blast
qed

lemma get_conversation_messages_page_example:
  "(0::int) < 2 \<and> (0::int) \<le> 1 \<and>
   map m_id (get_conversation_messages True (\<lambda>t. ''t'')
        [\<lparr>m_id = ''m1'', conversation_id = ''c1'', sender_id = ''u1'', message_text = ''a'',
           timestamp = 100, message_type = ''text'', is_read = False\<rparr>,
         \<lparr>m_id = ''m4'', conversation_id = ''c1'', sender_id = ''u2'', message_text = ''d'',
           timestamp = 400, message_type = ''text'', is_read = False\<rparr>,
         \<lparr>m_id = ''m2'', conversation_id = ''c1'', sender_id = ''u2'', message_text = ''b'',
           timestamp = 200, message_type = ''text'', is_read = False\<rparr>,
         \<lparr>m_id = ''mx'', conversation_id = ''c2'', sender_id = ''u3'', message_text = ''x'',
           timestamp = 250, message_type = ''text'', is_read = False\<rparr>,
         \<lparr>m_id = ''m3'', conversation_id = ''c1'', sender_id = ''u1'', message_text = ''c'',
           timestamp = 300, message_type = ''text'', is_read = False\<rparr>]
        ''c1'' 2 1) = [''m2'', ''m3''] \<and>
   (\<exists>page. get_conversation_messages True (\<lambda>t. ''t'')
        [\<lparr>m_id = ''m1'', conversation_id = ''c1'', sender_id = ''u1'', message_text = ''a'',
           timestamp = 100, message_type = ''text'', is_read = False\<rparr>,
         \<lparr>m_id = ''m4'', conversation_id = ''c1'', sender_id = ''u2'', message_text = ''d'',
           timestamp = 400, message_type = ''text'', is_read = False\<rparr>,
         \<lparr>m_id = ''m2'', conversation_id = ''c1'', sender_id = ''u2'', message_text = ''b'',
           timestamp = 200, message_type = ''text'', is_read = False\<rparr>,
         \<lparr>m_id = ''mx'', conversation_id = ''c2'', sender_id = ''u3'', message_text = ''x'',
           timestamp = 250, message_type = ''text'', is_read = False\<rparr>,
         \<lparr>m_id = ''m3'', conversation_id = ''c1'', sender_id = ''u1'', message_text = ''c'',
           timestamp = 300, message_type = ''text'', is_read = False\<rparr>]
        ''c1'' 2 1 = map (render (\<lambda>t. ''t'')) page \<and> length page \<le> nat 2 \<and>
        sorted (map timestamp page))"
proof -
  let ?msgs = "[\<lparr>m_id = ''m1'', conversation_id = ''c1'', sender_id = ''u1'', message_text = ''a'',
           timestamp = 100, message_type = ''text'', is_read = False\<rparr>,
         \<lparr>m_id = ''m4'', conversation_id = ''c1'', sender_id = ''u2'', message_text = ''d'',
           timestamp = 400, message_type = ''text'', is_read = False\<rparr>,
         \<lparr>m_id = ''m2'', conversation_id = ''c1'', sender_id = ''u2'', message_text = ''b'',
           timestamp = 200, message_type = ''text'', is_read = False\<rparr>,
         \<lparr>m_id = ''mx'', conversation_id = ''c2'', sender_id = ''u3'', message_text = ''x'',
           timestamp = 250, message_type = ''text'', is_read = False\<rparr>,
         \<lparr>m_id = ''m3'', conversation_id = ''c1'', sender_id = ''u1'', message_text = ''c'',
           timestamp = 300, message_type = ''text'', is_read = False\<rparr>] :: int message list"
  have h1: "(0::int) < 2" and h2: "(0::int) \<le> 1" by simp_all
  have ids: "map m_id (get_conversation_messages True (\<lambda>t. ''t'') ?msgs ''c1'' 2 1) = [''m2'', ''m3'']"
    by (simp add: get_conversation_messages_def cursor_page_def render_def)
  from get_conversation_messages_page [OF h1 h2, of "\<lambda>t. ''t''" ?msgs "''c1''"]
  have "\<exists>page. get_conversation_messages True (\<lambda>t. ''t'') ?msgs ''c1'' 2 1
       = map (render (\<lambda>t. ''t'')) page \<and> length page \<le> nat 2 \<and> sorted (map timestamp page)"
    by blast
  with ids show ?thesis by simp
qed

text \<open>
  C7. \<open>get_conversation_messages\<close> documents \<open>limit\<close> as the maximum number of messages to
  retrieve, and for \<open>limit \<ge> 1\<close> it returns at most that many, the most recent ones after
  the skipped ones, oldest first (\<open>get_conversation_messages_page\<close>). For \<open>limit = 0\<close> it
  does not: the value reaches the driver's cursor unchecked, the cursor takes 0 as "no
  limit", and a conversation of two messages is returned whole.
\<close>

theorem get_conversation_messages_limit_zero:
  "map m_id (get_conversation_messages True (\<lambda>t. ''t'')
        [\<lparr>m_id = ''m1'', conversation_id = ''c1'', sender_id = ''u1'', message_text = ''hi'',
           timestamp = 100, message_type = ''text'', is_read = False\<rparr>,
         \<lparr>m_id = ''m2'', conversation_id = ''c1'', sender_id = ''u2'', message_text = ''ho'',
           timestamp = 200, message_type = ''text'', is_read = False\<rparr>]
        ''c1'' 0 0) = [''m1'', ''m2''] \<and>
   \<not> length (get_conversation_messages True (\<lambda>t. ''t'')
        [\<lparr>m_id = ''m1'', conversation_id = ''c1'', sender_id = ''u1'', message_text = ''hi'',
           timestamp = 100, message_type = ''text'', is_read = False\<rparr>,
         \<lparr>m_id = ''m2'', conversation_id = ''c1'', sender_id = ''u2'', message_text = ''ho'',
           timestamp = 200, message_type = ''text'', is_read = False\<rparr>]
        ''c1'' 0 0) \<le> nat 0"
  by (simp add: get_conversation_messages_def cursor_page_def render_def)

theorem get_conversation_messages_limit_zero_witness:
  "length (get_conversation_messages True (\<lambda>t. ''t'')
        [\<lparr>m_id = ''m1'', conversation_id = ''c1'', sender_id = ''u1'', message_text = ''hi'',
           timestamp = 100, message_type = ''text'', is_read = False\<rparr>,
         \<lparr>m_id = ''m2'', conversation_id = ''c1'', sender_id = ''u2'', message_text = ''ho'',
           timestamp = 200, message_type = ''text'', is_read = False\<rparr>]
        ''c1'' 0 0) = 2"
proof -
  let ?r = "get_conversation_messages True (\<lambda>t. ''t'')
        [\<lparr>m_id = ''m1'', conversation_id = ''c1'', sender_id = ''u1'', message_text = ''hi'',
           timestamp = 100, message_type = ''text'', is_read = False\<rparr>,
         \<lparr>m_id = ''m2'', conversation_id = ''c1'', sender_id = ''u2'', message_text = ''ho'',
           timestamp = 200, message_type = ''text'', is_read = False\<rparr>]
        ''c1'' 0 0"
  from get_conversation_messages_limit_zero
  have "map m_id ?r = [''m1'', ''m2'']" by (rule conjunct1)
  then have "length (map m_id ?r) = length [''m1'', ''m2'']" by (rule arg_cong)
  then show ?thesis by (simp only: length_map) simp
qed

section \<open>Properties of the input validation\<close>

lemma startswith_iff: "startswith s p \<longleftrightarrow> (\<exists>rest. s = p @ rest)"
proof
  assume "startswith s p"
  then have "s = p @ drop (length p) s"
    by (metis startswith_def append_take_drop_id)
  then show "\<exists>rest. s = p @ rest" ..
next
  assume "\<exists>rest. s = p @ rest"
  then show "startswith s p" by (auto simp: startswith_def)
qed

text \<open>
  C6 as stated fails in the Neo4j variant: a statement that passes the check is run without
  its surrounding whitespace, not as it was given.
\<close>

theorem safe_select_neo4j_strips_counterexample:
  "safe_select_neo4j echo_neo4j '' MATCH (n) RETURN n'' () = Inl (DriverError ''MATCH (n) RETURN n'')
   \<and> ''MATCH (n) RETURN n'' \<noteq> '' MATCH (n) RETURN n''"
  by code_simp

text \<open>
  C6, amended. \<open>safe_select(query)\<close> raises ValueError if and only if the stripped query
  does not begin, case-insensitively, with \<open>select\<close> (MySQL variant), respectively with
  \<open>match\<close> or \<open>return\<close> (Neo4j variant). Nothing but this prefix is checked: a statement that
  passes is handed to the driver, and the result or the driver's exception comes back. The
  MySQL variant hands over the query as given, with its parameters; the Neo4j variant hands
  over the stripped query and ignores the parameters.
\<close>

theorem safe_select_prefix_guard:
  "(safe_select_mysql run query params = Inl ValueError
      \<longleftrightarrow> \<not> (\<exists>rest. lower (strip query) = ''select'' @ rest)) \<and>
   (safe_select_neo4j run' query params' = Inl ValueError
      \<longleftrightarrow> \<not> (\<exists>rest. lower (strip query) = ''match'' @ rest \<or>
                     lower (strip query) = ''return'' @ rest)) \<and>
   ((\<exists>rest. lower (strip query) = ''select'' @ rest) \<longrightarrow>
      safe_select_mysql run query params =
        (case run query params of
           Inl e \<Rightarrow> Inl (DriverError e)
         | Inr (descr, rows) \<Rightarrow> Inr (case descr of None \<Rightarrow> [] | Some names \<Rightarrow> names, rows))) \<and>
   ((\<exists>rest. lower (strip query) = ''match'' @ rest \<or> lower (strip query) = ''return'' @ rest) \<longrightarrow>
      safe_select_neo4j run' query params' =
        (case run' (strip query) of
           Inl e \<Rightarrow> Inl (DriverError e)
         | Inr records \<Rightarrow>
             Inr (case records of [] \<Rightarrow> [] | r # _ \<Rightarrow> map fst r,
                  map (\<lambda>rec. map (map_of rec)
                         (case records of [] \<Rightarrow> [] | r # _ \<Rightarrow> map fst r)) records)))"
proof -
  have m: "startswith (lower (strip query)) ''select''
      \<longleftrightarrow> (\<exists>rest. lower (strip query) = ''select'' @ rest)"
    by (rule startswith_iff)
  have n: "startswith (lower (strip query)) ''match'' \<or> startswith (lower (strip query)) ''return''
      \<longleftrightarrow> (\<exists>rest. lower (strip query) = ''match'' @ rest \<or> lower (strip query) = ''return'' @ rest)"
    by (auto simp: startswith_iff)
  have 1: "safe_select_mysql run query params = Inl ValueError
      \<longleftrightarrow> \<not> startswith (lower (strip query)) ''select''"
    by (auto simp: safe_select_mysql_def Let_def split: sum.splits prod.splits)
  have 2: "safe_select_neo4j run' query params' = Inl ValueError
      \<longleftrightarrow> \<not> (startswith (lower (strip query)) ''match'' \<or>
             startswith (lower (strip query)) ''return'')"
    by (auto simp: safe_select_neo4j_def Let_def split: sum.splits)
  have 3: "safe_select_mysql run query params =
        (case run query params of
           Inl e \<Rightarrow> Inl (DriverError e)
         | Inr (descr, rows) \<Rightarrow> Inr (case descr of None \<Rightarrow> [] | Some names \<Rightarrow> names, rows))"
    if "startswith (lower (strip query)) ''select''"
    using that by (simp add: safe_select_mysql_def Let_def)
  have 4: "safe_select_neo4j run' query params' =
        (case run' (strip query) of
           Inl e \<Rightarrow> Inl (DriverError e)
         | Inr records \<Rightarrow>
             Inr (case records of [] \<Rightarrow> [] | r # _ \<Rightarrow> map fst r,
                  map (\<lambda>rec. map (map_of rec)
                         (case records of [] \<Rightarrow> [] | r # _ \<Rightarrow> map fst r)) records))"
    if "startswith (lower (strip query)) ''match'' \<or> startswith (lower (strip query)) ''return''"
    using that by (auto simp: safe_select_neo4j_def Let_def split: sum.splits)
  from 1 2 3 4 m n show ?thesis by blast
qed

theorem safe_select_prefix_guard_witness:
  "safe_select_mysql echo_mysql '' Select 1 INTO OUTFILE f '' () =
     Inl (DriverError '' Select 1 INTO OUTFILE f '') \<and>
   safe_select_neo4j echo_neo4j '' Return 1 '' () = Inl (DriverError ''Return 1'') \<and>
   safe_select_mysql echo_mysql ''DROP TABLE patient'' () = Inl ValueError \<and>
   safe_select_neo4j echo_neo4j ''CREATE (n)'' () = Inl ValueError"
proof -
  have s1: "lower (strip '' Select 1 INTO OUTFILE f '') = ''select'' @ '' 1 into outfile f''"
    by code_simp
  have s2: "lower (strip '' Return 1 '') = ''return'' @ '' 1''"
    by code_simp
  have s3: "strip '' Return 1 '' = ''Return 1''"
    by code_simp
  have n1: "\<not> (\<exists>rest. lower (strip ''DROP TABLE patient'') = ''select'' @ rest)"
  proof -
    have "lower (strip ''DROP TABLE patient'') = ''drop table patient''" by code_simp
    then show ?thesis by simp
  qed
  have n2: "\<not> (\<exists>rest. lower (strip ''CREATE (n)'') = ''match'' @ rest \<or>
                      lower (strip ''CREATE (n)'') = ''return'' @ rest)"
  proof -
    have "lower (strip ''CREATE (n)'') = ''create (n)''" by code_simp
    then show ?thesis by simp
  qed
  have a: "safe_select_mysql echo_mysql '' Select 1 INTO OUTFILE f '' () =
     Inl (DriverError '' Select 1 INTO OUTFILE f '')"
    using safe_select_prefix_guard [of echo_mysql "'' Select 1 INTO OUTFILE f ''" "()" echo_neo4j "()"] s1
    by (simp add: echo_mysql_def)
  have b: "safe_select_neo4j echo_neo4j '' Return 1 '' () = Inl (DriverError ''Return 1'')"
    using safe_select_prefix_guard [of echo_mysql "'' Return 1 ''" "()" echo_neo4j "()"] s2 s3
    by (simp add: echo_neo4j_def)
  have c: "safe_select_mysql echo_mysql ''DROP TABLE patient'' () = Inl ValueError"
    using safe_select_prefix_guard [of echo_mysql "''DROP TABLE patient''" "()" echo_neo4j "()"] n1 by blast
  have d: "safe_select_neo4j echo_neo4j ''CREATE (n)'' () = Inl ValueError"
    using safe_select_prefix_guard [of echo_mysql "''CREATE (n)''" "()" echo_neo4j "()"] n2 by blast
  from a b c d show ?thesis by simp
qed

section \<open>Properties of the doctor lists\<close>

lemma get_doctors_by_department_ordered:
  "sorted (map (\<lambda>(i, fn, ln). (fn, ln)) (get_doctors_by_department g department_id))"
  unfolding get_doctors_by_department_def by (rule sorted_sort_key)

text \<open>
  C8. The Neo4j variant lists the doctors of a department ordered by first name, then last
  name (\<open>get_doctors_by_department_ordered\<close>). The MySQL variant does not: on the sample
  data of the module, selecting the department "Internal medicine" (id 4) fills the doctor
  list with Robert Davis before Maria Rodriguez, the order of the table, which is not the
  order of the names.
\<close>

theorem on_dept_selected_not_ordered:
  "doctor_combo_values (fst (snd (on_dept_selected (booking_form [] [] []) seed_db)))
     = [''Dr. Robert Davis'', ''Dr. Maria Rodriguez''] \<and>
   \<not> sorted [(''Robert'', ''Davis''), (''Maria'', ''Rodriguez'')]"
  by code_simp

section \<open>Properties of the booking form\<close>

lemma no_match_invalid: "\<not> re_match_date d \<Longrightarrow> \<not> validate_date_yyyy_mm_dd d"
  by (simp add: validate_date_yyyy_mm_dd_def)

lemma book_appointment_mysql_invalid_date:
  assumes "\<not> validate_date_yyyy_mm_dd (strip (date_entry ui))"
  shows "book_appointment_mysql today ui db = (InputError ''Please fill in all required fields.'', ui, db)
       \<or> book_appointment_mysql today ui db = (InputError ''Date must be in YYYY-MM-DD format'', ui, db)"
  using assms by (simp add: book_appointment_mysql_def Let_def)

text \<open>
  C4 as stated fails for a date string with surrounding whitespace: the text " 2024-05-06"
  does not match the pattern, and \<open>validate_date_yyyy_mm_dd\<close> returns False for it, but
  \<open>book_appointment\<close> strips the entry before it validates, books the appointment and
  issues three statements.
\<close>

theorem padded_date_booked_counterexample:
  "\<not> re_match_date '' 2024-05-06'' \<and>
   \<not> validate_date_yyyy_mm_dd '' 2024-05-06'' \<and>
   fst (book_appointment_mysql ''2026-11-04''
          (booking_form ''Lars'' ''Nilsson'' '' 2024-05-06'') seed_db) = Success \<and>
   issued (snd (snd (book_appointment_mysql ''2026-11-04''
          (booking_form ''Lars'' ''Nilsson'' '' 2024-05-06'') seed_db)))
     = [SelectPatient ''Lars'' ''Nilsson'', InsertAppointment 8 ''2024-05-06'' 1, Commit]"
  by code_simp

text \<open>
  C4, amended. A date string that fails the pattern \<open>^\d{4}-\d{2}-\d{2}$\<close> makes
  \<open>validate_date_yyyy_mm_dd\<close> return False. \<open>book_appointment\<close> validates the text of the
  date entry after \<open>strip()\<close>: when that stripped text fails the pattern, it rejects the
  booking with an input error, the store and its log of statements are as before, so no
  statement was issued, and the form is untouched. The example "2024-13-40" has the shape
  of the pattern but is no calendar date; it is rejected in the same way.
\<close>

theorem malformed_date_rejected:
  "(\<not> re_match_date d \<longrightarrow> \<not> validate_date_yyyy_mm_dd d) \<and>
   (\<not> re_match_date (strip (date_entry ui)) \<longrightarrow>
      (\<exists>msg. book_appointment_mysql today ui db = (InputError msg, ui, db))) \<and>
   \<not> validate_date_yyyy_mm_dd ''2024-13-40'' \<and>
   (strip (date_entry ui) = ''2024-13-40'' \<longrightarrow>
      (\<exists>msg. book_appointment_mysql today ui db = (InputError msg, ui, db)))"
proof -
  have ex: "\<not> validate_date_yyyy_mm_dd ''2024-13-40''"
    by code_simp
  have a: "\<exists>msg. book_appointment_mysql today ui db = (InputError msg, ui, db)"
    if "\<not> re_match_date (strip (date_entry ui))"
    using book_appointment_mysql_invalid_date [OF no_match_invalid [OF that]] by blast
  have b: "\<exists>msg. book_appointment_mysql today ui db = (InputError msg, ui, db)"
    if "strip (date_entry ui) = ''2024-13-40''"
  proof -
    from that ex have "\<not> validate_date_yyyy_mm_dd (strip (date_entry ui))" by simp
    from book_appointment_mysql_invalid_date [OF this] show ?thesis by blast
  qed
  from ex a b no_match_invalid show ?thesis by blast
qed

theorem malformed_date_rejected_witness:
  "fst (book_appointment_mysql ''2026-11-04'' (booking_form ''Lars'' ''Nilsson'' ''15/01/2024'') seed_db)
     = InputError ''Date must be in YYYY-MM-DD format'' \<and>
   snd (book_appointment_mysql ''2026-11-04'' (booking_form ''Lars'' ''Nilsson'' ''15/01/2024'') seed_db)
     = (booking_form ''Lars'' ''Nilsson'' ''15/01/2024'', seed_db) \<and>
   fst (book_appointment_mysql ''2026-11-04'' (booking_form ''Lars'' ''Nilsson'' ''2024-13-40'') seed_db)
     = InputError ''Date must be in YYYY-MM-DD format'' \<and>
   snd (book_appointment_mysql ''2026-11-04'' (booking_form ''Lars'' ''Nilsson'' ''2024-13-40'') seed_db)
     = (booking_form ''Lars'' ''Nilsson'' ''2024-13-40'', seed_db)"
proof -
  let ?u1 = "booking_form ''Lars'' ''Nilsson'' ''15/01/2024''"
  let ?u2 = "booking_form ''Lars'' ''Nilsson'' ''2024-13-40''"
  have h1: "\<not> re_match_date (strip (date_entry ?u1))" by code_simp
  have h2: "strip (date_entry ?u2) = ''2024-13-40''" by code_simp
  have e1: "fst (book_appointment_mysql ''2026-11-04'' ?u1 seed_db)
      = InputError ''Date must be in YYYY-MM-DD format''" by code_simp
  have e2: "fst (book_appointment_mysql ''2026-11-04'' ?u2 seed_db)
      = InputError ''Date must be in YYYY-MM-DD format''" by code_simp
  from malformed_date_rejected [of "strip (date_entry ?u1)" ?u1 "''2026-11-04''" seed_db] h1
  obtain m1 where "book_appointment_mysql ''2026-11-04'' ?u1 seed_db = (InputError m1, ?u1, seed_db)"
    by blast
  then have s1: "snd (book_appointment_mysql ''2026-11-04'' ?u1 seed_db) = (?u1, seed_db)"
    by simp
  from malformed_date_rejected [of "strip (date_entry ?u2)" ?u2 "''2026-11-04''" seed_db] h2
  obtain m2 where "book_appointment_mysql ''2026-11-04'' ?u2 seed_db = (InputError m2, ?u2, seed_db)"
    by blast
  then have s2: "snd (book_appointment_mysql ''2026-11-04'' ?u2 seed_db) = (?u2, seed_db)"
    by simp
  from e1 e2 s1 s2 show ?thesis by simp
qed

section \<open>Properties of the file storage\<close>

lemma insert_file_Inr:
  assumes "insert_file row db = (Inr fid, db1)"
  shows "\<not> unread_result db1 \<and> fid = medical_files_auto db \<and>
         fid \<notin> fr_file_id ` set (medical_files_rows db) \<and>
         medical_files_rows db1 = medical_files_rows db @ [row\<lparr>fr_file_id := fid\<rparr>]"
  using assms
  by (auto simp: insert_file_def and_then_def execute_def split: if_splits)

lemma commit_Inr:
  assumes "commit db = (Inr u, db1)"
  shows "medical_files_rows db1 = medical_files_rows db \<and> unread_result db1 = unread_result db"
  using assms by (auto simp: commit_def execute_def split: if_splits)

lemma store_file_Some:
  assumes "store_file guess_type fs now path ob de db = (Some fid, db')"
    and "fs path = Some content"
  shows "\<exists>row. \<not> unread_result db' \<and> fid \<notin> fr_file_id ` set (medical_files_rows db) \<and>
           medical_files_rows db' = medical_files_rows db @ [row] \<and>
           fr_file_id row = fid \<and> fr_filename row = basename path \<and>
           fr_file_data row = content \<and> fr_file_size row = int (length content)"
proof -
  define row where "row =
     \<lparr>fr_file_id = 0, fr_filename = basename path,
      fr_file_type = (case guess_type path of
                          None \<Rightarrow> lower (splitext_ext (basename path))
                        | Some t \<Rightarrow> if t = [] then lower (splitext_ext (basename path)) else t),
      fr_file_size = int (length content), fr_file_data = content,
      fr_upload_date = now, fr_observation_id = ob, fr_description = de\<rparr>"
  have st: "store_file guess_type fs now path ob de db =
      (case and_then (insert_file row db)
                     (\<lambda>fid db1. and_then (commit db1) (\<lambda>_ db2. (Inr fid, db2))) of
                (Inl e, db') \<Rightarrow> (None, db')
              | (Inr fid, db') \<Rightarrow> (Some fid, db'))"
    using assms(2) by (simp add: store_file_def row_def Let_def)
  obtain r1 db1 where i: "insert_file row db = (r1, db1)" by (cases "insert_file row db")
  from assms(1) st i obtain f1 where r1: "r1 = Inr f1"
    by (cases r1) (auto simp: and_then_def)
  obtain r2 db2 where c: "commit db1 = (r2, db2)" by (cases "commit db1")
  from assms(1) st i r1 c obtain u where r2: "r2 = Inr u"
    by (cases r2) (auto simp: and_then_def)
  from assms(1) st i r1 c r2 have eq: "fid = f1" "db' = db2"
    by (auto simp: and_then_def)
  from insert_file_Inr [OF i [unfolded r1]] commit_Inr [OF c [unfolded r2]] eq
  have "\<not> unread_result db' \<and> fid \<notin> fr_file_id ` set (medical_files_rows db) \<and>
        medical_files_rows db' = medical_files_rows db @ [row\<lparr>fr_file_id := fid\<rparr>]"
    by auto
  moreover have "fr_file_id (row\<lparr>fr_file_id := fid\<rparr>) = fid \<and>
      fr_filename (row\<lparr>fr_file_id := fid\<rparr>) = basename path \<and>
      fr_file_data (row\<lparr>fr_file_id := fid\<rparr>) = content \<and>
      fr_file_size (row\<lparr>fr_file_id := fid\<rparr>) = int (length content)"
    by (simp add: row_def)
  ultimately show ?thesis by blast
qed

text \<open>
  C3. When \<open>store_file\<close> has stored a readable file and returned its id, \<open>retrieve_file\<close> of
  that id, called next, returns a record whose \<open>file_data\<close> is the content of the file,
  byte for byte, and whose \<open>filename\<close> is the basename of the path; its \<open>file_size\<close> is the
  number of bytes.
\<close>

theorem store_then_retrieve_file:
  assumes "fs path = Some content"
    and "store_file guess_type fs now path observation_id description db = (Some fid, db')"
  shows "\<exists>row. fst (retrieve_file fid db') = Some row \<and>
           fr_file_data row = content \<and> fr_filename row = basename path \<and>
           fr_file_id row = fid \<and> fr_file_size row = int (length content)"
proof -
  from store_file_Some [OF assms(2) assms(1)]
  obtain row where row: "\<not> unread_result db'"
      "fid \<notin> fr_file_id ` set (medical_files_rows db)"
      "medical_files_rows db' = medical_files_rows db @ [row]"
      "fr_file_id row = fid" "fr_filename row = basename path"
      "fr_file_data row = content" "fr_file_size row = int (length content)"
    by blast
  have old: "[r \<leftarrow> medical_files_rows db. fr_file_id r = fid] = []"
    using row(2) by (auto simp: filter_empty_conv)
  have "[r \<leftarrow> medical_files_rows db'. fr_file_id r = fid] = [row]"
    using row(3,4) old by simp
  then have "fst (retrieve_file fid db') = Some row"
    using row(1) by (simp add: retrieve_file_def execute_def fetchone_def)
  with row show ?thesis by blast
qed

theorem store_then_retrieve_file_witness:
  "map_option (\<lambda>row. (fr_filename row, fr_file_data row, fr_file_type row))
     (fst (retrieve_file 1
        (snd (store_file (\<lambda>p. None) [''/home/u/scan.PNG'' \<mapsto> ''bytes''] ''2026-11-04 10:00:00''
               ''/home/u/scan.PNG'' None None seed_db))))
   = Some (''scan.PNG'', ''bytes'', ''.png'')"
proof -
  let ?fs = "[''/home/u/scan.PNG'' \<mapsto> ''bytes'']"
  let ?st = "store_file (\<lambda>p. None) ?fs ''2026-11-04 10:00:00'' ''/home/u/scan.PNG'' None None seed_db"
  have rd: "?fs ''/home/u/scan.PNG'' = Some ''bytes''" by simp
  have "fst ?st = Some 1" by code_simp
  then have st: "?st = (Some 1, snd ?st)" by (metis prod.collapse)
  have bn: "basename ''/home/u/scan.PNG'' = ''scan.PNG''" by code_simp
  have ty: "map_option fr_file_type (fst (retrieve_file 1 (snd ?st))) = Some ''.png''"
    by code_simp
  from store_then_retrieve_file [OF rd st] bn ty show ?thesis by auto
qed

section \<open>Booking for an existing patient\<close>

lemma book_statements_existing:
  assumes "[i. (i, fn, ln, d) \<leftarrow> patient db, fn = fname \<and> ln = lname] = pid # others"
    and "book_statements fname lname did date db = (res, db')"
  shows "patient db' = patient db \<and>
         (case res of
            Inl e \<Rightarrow> appointment db' = appointment db
          | Inr u \<Rightarrow> appointment db' =
              appointment db @ [(appointment_auto db, Some did, date, Some pid)])"
proof (cases "unread_result db")
  case True
  with assms(2) show ?thesis
    by (auto simp: book_statements_def and_then_def execute_def)
next
  case False
  define db1 where "db1 = db\<lparr>issued := issued db @ [SelectPatient fname lname]\<rparr>"
  have rows: "[i. (i, fn, ln, d) \<leftarrow> patient db1, fn = fname \<and> ln = lname] = pid # others"
    using assms(1) by (simp add: db1_def)
  obtain db2 where f: "fetchone (pid # others) db1 = (Some pid, db2)"
    and db2: "patient db2 = patient db" "appointment db2 = appointment db"
      "appointment_auto db2 = appointment_auto db"
    by (cases others) (auto simp: fetchone_def db1_def)
  have bs: "book_statements fname lname did date db =
      and_then (insert_appointment did date pid db2) (\<lambda>_ db6. commit db6)"
    using False rows f
    by (simp add: book_statements_def and_then_def execute_def db1_def [symmetric])
  obtain r3 db3 where ia: "insert_appointment did date pid db2 = (r3, db3)"
    by (cases "insert_appointment did date pid db2")
  show ?thesis
  proof (cases r3)
    case (Inl e)
    with ia have "patient db3 = patient db2 \<and> appointment db3 = appointment db2"
      by (auto simp: insert_appointment_def and_then_def execute_def split: if_splits)
    with assms(2) bs ia Inl db2 show ?thesis
      by (auto simp: and_then_def)
  next
    case (Inr u)
    with ia have d3: "patient db3 = patient db2 \<and> \<not> unread_result db3 \<and>
        appointment db3 = appointment db2 @ [(appointment_auto db2, Some did, date, Some pid)]"
      by (auto simp: insert_appointment_def and_then_def execute_def split: if_splits)
    then have "commit db3 = (Inr (), db3\<lparr>issued := issued db3 @ [Commit]\<rparr>)"
      by (simp add: commit_def execute_def)
    with assms(2) bs ia Inr d3 db2 show ?thesis
      by (auto simp: and_then_def)
  qed
qed

lemma book_appointment_mysql_existing:
  assumes "[i. (i, fn, ln, d) \<leftarrow> patient db,
              fn = strip (fname_entry ui) \<and> ln = strip (lname_entry ui)] = pid # others"
  shows "patient (snd (snd (book_appointment_mysql today ui db))) = patient db \<and>
         (if fst (book_appointment_mysql today ui db) = Success
          then \<exists>did. doctor_map ui (doctor_combo ui) = Some did \<and>
                 appointment (snd (snd (book_appointment_mysql today ui db))) =
                   appointment db @
                     [(appointment_auto db, Some did, strip (date_entry ui), Some pid)]
          else appointment (snd (snd (book_appointment_mysql today ui db))) = appointment db)"
proof (cases "strip (fname_entry ui) = [] \<or> strip (lname_entry ui) = [] \<or> doctor_combo ui = []
    \<or> strip (date_entry ui) = [] \<or> \<not> validate_date_yyyy_mm_dd (strip (date_entry ui))
    \<or> doctor_map ui (doctor_combo ui) = None \<or> doctor_map ui (doctor_combo ui) = Some 0")
  case True
  then show ?thesis
    by (auto simp: book_appointment_mysql_def Let_def split: option.splits)
next
  case False
  then obtain did where did: "doctor_map ui (doctor_combo ui) = Some did" "did \<noteq> 0"
    by auto
  obtain res db' where bs: "book_statements (strip (fname_entry ui)) (strip (lname_entry ui))
       did (strip (date_entry ui)) db = (res, db')"
    by (cases "book_statements (strip (fname_entry ui)) (strip (lname_entry ui))
       did (strip (date_entry ui)) db")
  have ba: "book_appointment_mysql today ui db =
      (case res of
         Inl e \<Rightarrow> (DatabaseError e, ui, db')
       | Inr u \<Rightarrow> (Success, ui\<lparr>fname_entry := [], lname_entry := [], date_entry := today\<rparr>, db'))"
    using False did bs by (simp add: book_appointment_mysql_def Let_def split: sum.splits)
  from book_statements_existing [OF assms bs] did ba show ?thesis
    by (cases res) auto
qed

lemma get_patient_by_name_Some:
  assumes "get_patient_by_name g fn ln = Some (pid, pfn, pln)"
  shows "(pid, pfn, pln) \<in> set (patients g)"
proof -
  from assms obtain rest where
    "filter (\<lambda>(i, f, l). f = fn \<and> l = ln) (patients g) = (pid, pfn, pln) # rest"
    by (auto simp: get_patient_by_name_def split: list.splits)
  then have "(pid, pfn, pln) \<in> set (filter (\<lambda>(i, f, l). f = fn \<and> l = ln) (patients g))"
    by simp
  then show ?thesis by auto
qed

lemma next_id_frame:
  "patients (snd (next_id label g)) = patients g \<and> doctors (snd (next_id label g)) = doctors g \<and>
   appointments (snd (next_id label g)) = appointments g \<and>
   patient_has_appointment (snd (next_id label g)) = patient_has_appointment g \<and>
   doctor_has_appointment (snd (next_id label g)) = doctor_has_appointment g"
  by (simp add: next_id_def Let_def split: option.splits)

lemma pairs_length:
  "length [(d, p). d \<leftarrow> ds, fst d = did, p \<leftarrow> ps, fst p = pid] =
     length (filter (\<lambda>d. fst d = did) ds) * length (filter (\<lambda>p. fst p = pid) ps)"
proof (induction ds)
  case Nil
  then show ?case by simp
next
  case (Cons d ds)
  have "length (concat (map (\<lambda>p. if fst p = pid then [(d, p)] else []) ps)) =
      length (filter (\<lambda>p. fst p = pid) ps)"
    by (induction ps) auto
  with Cons show ?case by auto
qed

lemma create_appointment_effect:
  assumes "create_appointment did date pid g = (res, g')"
  shows "patients g' = patients g \<and>
         (case res of
            Inl e \<Rightarrow>
              appointments g' = appointments g \<and>
              patient_has_appointment g' = patient_has_appointment g \<and>
              doctor_has_appointment g' = doctor_has_appointment g
          | Inr aid \<Rightarrow>
              if did \<in> fst ` set (doctors g) \<and> pid \<in> fst ` set (patients g)
              then appointments g' = appointments g @ [(aid, date)] \<and>
                   patient_has_appointment g' = patient_has_appointment g @ [(pid, aid)] \<and>
                   doctor_has_appointment g' = doctor_has_appointment g @ [(did, aid)]
              else appointments g' = appointments g \<and>
                   patient_has_appointment g' = patient_has_appointment g \<and>
                   doctor_has_appointment g' = doctor_has_appointment g)"
proof -
  obtain i g1 where n: "next_id ''Appointment'' g = (i, g1)" by (cases "next_id ''Appointment'' g")
  with next_id_frame [of "''Appointment''" g]
  have fr: "patients g1 = patients g" "doctors g1 = doctors g" "appointments g1 = appointments g"
      "patient_has_appointment g1 = patient_has_appointment g"
      "doctor_has_appointment g1 = doctor_has_appointment g" by simp_all
  define k where "k = length (filter (\<lambda>d. fst d = did) (doctors g)) *
                      length (filter (\<lambda>p. fst p = pid) (patients g))"
  have k0: "k = 0 \<longleftrightarrow> \<not> (did \<in> fst ` set (doctors g) \<and> pid \<in> fst ` set (patients g))"
    by (force simp: k_def filter_empty_conv)
  have ca: "create_appointment did date pid g =
     (if k = 0 then (Inr i, g1)
      else if 1 < k \<or> i \<in> fst ` set (appointments g1) then (Inl ConstraintError, g1)
      else (Inr i,
            g1\<lparr>appointments := appointments g1 @ [(i, date)],
               doctor_has_appointment := doctor_has_appointment g1 @ [(did, i)],
               patient_has_appointment := patient_has_appointment g1 @ [(pid, i)]\<rparr>))"
    using n fr(1,2) by (simp add: create_appointment_def Let_def pairs_length k_def)
  show ?thesis
  proof (cases "k = 0")
    case True
    with assms ca fr k0 show ?thesis by auto
  next
    case False
    with k0 have ex: "did \<in> fst ` set (doctors g) \<and> pid \<in> fst ` set (patients g)" by blast
    show ?thesis
    proof (cases "1 < k \<or> i \<in> fst ` set (appointments g1)")
      case True
      with assms ca False fr show ?thesis by auto
    next
      case no: False
      with assms ca False have "res = Inr i"
        and "g' = g1\<lparr>appointments := appointments g1 @ [(i, date)],
               doctor_has_appointment := doctor_has_appointment g1 @ [(did, i)],
               patient_has_appointment := patient_has_appointment g1 @ [(pid, i)]\<rparr>"
        by auto
      with fr ex show ?thesis by simp
    qed
  qed
qed

text \<open>
  C5. When the stripped first and last name of the booking form match an existing Patient
  record, \<open>book_appointment\<close> leaves the Patient records as they are, in both variants, and
  an appointment that it creates references the patient that was found. In the MySQL
  variant a successful booking adds exactly one appointment row, with the id of the first
  matching patient; an unsuccessful one adds none. In the Neo4j variant a successful booking
  adds one Appointment node with a relationship from the patient found and one from the
  doctor, if a Doctor node with the selected id exists, and nothing otherwise; a booking
  that ends in the "Database Error" dialog adds no appointment, and a booking rejected for
  its input leaves the graph as it is.
\<close>

theorem book_appointment_existing_patient:
  assumes "[i. (i, fn, ln, d) \<leftarrow> patient db,
              fn = strip (fname_entry ui) \<and> ln = strip (lname_entry ui)] = pid # others"
    and "get_patient_by_name g (strip (fname_entry ui2)) (strip (lname_entry ui2))
           = Some (pid2, pfn, pln)"
  shows "patient (snd (snd (book_appointment_mysql today ui db))) = patient db \<and>
         (if fst (book_appointment_mysql today ui db) = Success
          then \<exists>did. doctor_map ui (doctor_combo ui) = Some did \<and>
                 appointment (snd (snd (book_appointment_mysql today ui db))) =
                   appointment db @
                     [(appointment_auto db, Some did, strip (date_entry ui), Some pid)]
          else appointment (snd (snd (book_appointment_mysql today ui db))) = appointment db) \<and>
         patients (snd (snd (book_appointment_neo4j today ui2 g))) = patients g \<and>
         (case fst (book_appointment_neo4j today ui2 g) of
            Success \<Rightarrow>
              (\<exists>did aid. doctor_map ui2 (doctor_combo ui2) = Some did \<and>
                 (if did \<in> fst ` set (doctors g)
                  then appointments (snd (snd (book_appointment_neo4j today ui2 g))) =
                         appointments g @ [(aid, strip (date_entry ui2))] \<and>
                       patient_has_appointment (snd (snd (book_appointment_neo4j today ui2 g))) =
                         patient_has_appointment g @ [(pid2, aid)] \<and>
                       doctor_has_appointment (snd (snd (book_appointment_neo4j today ui2 g))) =
                         doctor_has_appointment g @ [(did, aid)]
                  else appointments (snd (snd (book_appointment_neo4j today ui2 g))) =
                         appointments g \<and>
                       patient_has_appointment (snd (snd (book_appointment_neo4j today ui2 g))) =
                         patient_has_appointment g))
          | DatabaseError e \<Rightarrow>
              appointments (snd (snd (book_appointment_neo4j today ui2 g))) = appointments g \<and>
              patient_has_appointment (snd (snd (book_appointment_neo4j today ui2 g))) =
                patient_has_appointment g
          | InputError msg \<Rightarrow> snd (snd (book_appointment_neo4j today ui2 g)) = g)"
proof -
  let ?neo = "book_appointment_neo4j today ui2 g"
  have neo: "patients (snd (snd ?neo)) = patients g \<and>
         (case fst ?neo of
            Success \<Rightarrow>
              (\<exists>did aid. doctor_map ui2 (doctor_combo ui2) = Some did \<and>
                 (if did \<in> fst ` set (doctors g)
                  then appointments (snd (snd ?neo)) =
                         appointments g @ [(aid, strip (date_entry ui2))] \<and>
                       patient_has_appointment (snd (snd ?neo)) =
                         patient_has_appointment g @ [(pid2, aid)] \<and>
                       doctor_has_appointment (snd (snd ?neo)) =
                         doctor_has_appointment g @ [(did, aid)]
                  else appointments (snd (snd ?neo)) = appointments g \<and>
                       patient_has_appointment (snd (snd ?neo)) = patient_has_appointment g))
          | DatabaseError e \<Rightarrow>
              appointments (snd (snd ?neo)) = appointments g \<and>
              patient_has_appointment (snd (snd ?neo)) = patient_has_appointment g
          | InputError msg \<Rightarrow> snd (snd ?neo) = g)"
  proof (cases "strip (fname_entry ui2) = [] \<or> strip (lname_entry ui2) = [] \<or> doctor_combo ui2 = []
    \<or> strip (date_entry ui2) = [] \<or> \<not> validate_date_yyyy_mm_dd (strip (date_entry ui2))
    \<or> doctor_map ui2 (doctor_combo ui2) = None \<or> doctor_map ui2 (doctor_combo ui2) = Some 0")
    case True
    then show ?thesis
      by (auto simp: book_appointment_neo4j_def Let_def split: option.splits)
  next
    case False
    then obtain did where did: "doctor_map ui2 (doctor_combo ui2) = Some did" "did \<noteq> 0"
      by auto
    obtain res g' where ca: "create_appointment did (strip (date_entry ui2)) pid2 g = (res, g')"
      by (cases "create_appointment did (strip (date_entry ui2)) pid2 g")
    have ba: "?neo =
        (case res of
           Inl e \<Rightarrow> (DatabaseError e, ui2, g')
         | Inr aid \<Rightarrow>
             (Success, ui2\<lparr>fname_entry := [], lname_entry := [], date_entry := today\<rparr>, g'))"
      using False did ca assms(2)
      by (simp add: book_appointment_neo4j_def Let_def split: sum.splits)
    have "(pid2, pfn, pln) \<in> set (patients g)"
      using assms(2) by (rule get_patient_by_name_Some)
    then have pex: "pid2 \<in> fst ` set (patients g)"
      by force
    note eff = create_appointment_effect [OF ca]
    show ?thesis
    proof (cases res)
      case (Inl e)
      with ba eff show ?thesis by simp
    next
      case (Inr aid)
      with eff pex have
        "patients g' = patients g"
        "if did \<in> fst ` set (doctors g)
         then appointments g' = appointments g @ [(aid, strip (date_entry ui2))] \<and>
              patient_has_appointment g' = patient_has_appointment g @ [(pid2, aid)] \<and>
              doctor_has_appointment g' = doctor_has_appointment g @ [(did, aid)]
         else appointments g' = appointments g \<and>
              patient_has_appointment g' = patient_has_appointment g"
        by (simp_all split: if_splits)
      moreover from ba Inr have "fst ?neo = Success" "snd (snd ?neo) = g'" by simp_all
      ultimately show ?thesis using did(1) by simp
    qed
  qed
  from book_appointment_mysql_existing [OF assms(1), of today] neo show ?thesis
    by blast
qed

theorem book_appointment_existing_patient_witness:
  "patient (snd (snd (book_appointment_mysql ''2026-11-04''
      (booking_form ''Lars'' '' Nilsson'' ''2024-05-06'') seed_db))) = patient seed_db \<and>
   appointment (snd (snd (book_appointment_mysql ''2026-11-04''
      (booking_form ''Lars'' '' Nilsson'' ''2024-05-06'') seed_db)))
     = appointment seed_db @ [(5, Some 8, ''2024-05-06'', Some 1)] \<and>
   patients (snd (snd (book_appointment_neo4j ''2026-11-04''
      (booking_form ''Lars'' '' Nilsson'' ''2024-05-06'') seed_graph))) = patients seed_graph \<and>
   patient_has_appointment (snd (snd (book_appointment_neo4j ''2026-11-04''
      (booking_form ''Lars'' '' Nilsson'' ''2024-05-06'') seed_graph))) = [(1, 1), (1, 5)] \<and>
   fst (book_appointment_neo4j ''2026-11-04''
      (booking_form ''Lars'' '' Nilsson'' ''2024-05-06'') stale_graph) = DatabaseError ConstraintError \<and>
   patients (snd (snd (book_appointment_neo4j ''2026-11-04''
      (booking_form ''Lars'' '' Nilsson'' ''2024-05-06'') stale_graph))) = patients stale_graph \<and>
   appointments (snd (snd (book_appointment_neo4j ''2026-11-04''
      (booking_form ''Lars'' '' Nilsson'' ''2024-05-06'') stale_graph))) = appointments stale_graph"
proof -
  let ?ui = "booking_form ''Lars'' '' Nilsson'' ''2024-05-06''"
  have m: "[i. (i, fn, ln, d) \<leftarrow> patient seed_db,
              fn = strip (fname_entry ?ui) \<and> ln = strip (lname_entry ?ui)] = 1 # []"
    by code_simp
  have n: "get_patient_by_name seed_graph (strip (fname_entry ?ui)) (strip (lname_entry ?ui))
      = Some (1, ''Lars'', ''Nilsson'')"
    by code_simp
  have n': "get_patient_by_name stale_graph (strip (fname_entry ?ui)) (strip (lname_entry ?ui))
      = Some (1, ''Lars'', ''Nilsson'')"
    by code_simp
  have a: "appointment (snd (snd (book_appointment_mysql ''2026-11-04'' ?ui seed_db)))
     = appointment seed_db @ [(5, Some 8, ''2024-05-06'', Some 1)]"
    by code_simp
  have b: "patient_has_appointment (snd (snd (book_appointment_neo4j ''2026-11-04'' ?ui seed_graph)))
     = [(1, 1), (1, 5)]"
    by code_simp
  have c: "fst (book_appointment_neo4j ''2026-11-04'' ?ui stale_graph)
     = DatabaseError ConstraintError"
    by code_simp
  from book_appointment_existing_patient [OF m n, of "''2026-11-04''"]
  have s1: "patient (snd (snd (book_appointment_mysql ''2026-11-04'' ?ui seed_db))) = patient seed_db"
    and s2: "patients (snd (snd (book_appointment_neo4j ''2026-11-04'' ?ui seed_graph)))
       = patients seed_graph"
    by blast+
  from book_appointment_existing_patient [OF m n', of "''2026-11-04''"] c
  have s3: "patients (snd (snd (book_appointment_neo4j ''2026-11-04'' ?ui stale_graph)))
       = patients stale_graph"
    and s4: "appointments (snd (snd (book_appointment_neo4j ''2026-11-04'' ?ui stale_graph)))
       = appointments stale_graph"
    by simp_all
  from s1 s2 s3 s4 a b c show ?thesis by simp
qed

end
